theory Spec2Isabelle
  imports Complex_Main "HOL-Library.Log_Nat" "HOL-Library.AList"
begin

section \<open>Text, values and exceptions\<close>

text \<open>
  A Python \<open>str\<close> is a sequence of Unicode code points, so text is a list of naturals.
  \<open>lit\<close> writes an ASCII literal of the source as such a list. The two rating glyphs
  are U+2605 (black star) and U+00BD (one half).
\<close>

type_synonym ustr = "nat list"

definition lit :: "string \<Rightarrow> ustr" where
  "lit s = map of_char s"

definition star :: nat where
  "star = 9733"

definition half :: nat where
  "half = 189"

text \<open>The exceptions the modelled code can raise; every raise is an \<open>Inl\<close> of the model.\<close>

datatype error =
    AttributeError | TypeError | KeyError | IndexError | ValueError | OverflowError
  | NameError | ConnectionError | InvalidRating

text \<open>
  The values stored in the scraped dictionaries. \<open>VNone\<close> and \<open>VNaN\<close> are the two
  possible \<open>not_found\<close> sentinels (\<open>None\<close> for JSON output, \<open>np.nan\<close> for CSV output);
  a finite float is the rational it denotes.
\<close>

datatype pyval =
    VNone | VNaN | VInf bool | VInt int | VFloat rat | VStr ustr | VList "ustr list"

section \<open>Rating scale (listscraper.utility_functions)\<close>

text \<open>
  Modelled from the spec: \<open>val2stars\<close> and \<open>stars2val\<close> live in
  \<open>listscraper/utility_functions.py\<close>, which is not among the sources. The spec gives a
  RatingScale that is a total bijection between the 10 half-star increments in
  \<open>[0.5, 5.0]\<close> and their glyph strings; \<open>valueToStars\<close> fails with InvalidRating on
  any other value, and \<open>starsToValue\<close> yields the caller's sentinel on any other text.
  The glyph string of a value is one star per full point, followed by the half glyph
  when the value has a half point.
\<close>

definition rating_scale :: "(rat \<times> ustr) list" where
  "rating_scale =
     [(1/2, [half]), (1, [star]), (3/2, [star, half]), (2, [star, star]),
      (5/2, [star, star, half]), (3, [star, star, star]),
      (7/2, [star, star, star, half]), (4, [star, star, star, star]),
      (9/2, [star, star, star, star, half]), (5, [star, star, star, star, star])]"

text \<open>Modelled from the spec: \<open>val2stars\<close> (the spec's \<open>valueToStars\<close>), absent from the
  sources; it looks the value up in the scale and fails with InvalidRating on a value
  that is not one of the 10 increments.\<close>

definition val2stars :: "rat \<Rightarrow> pyval \<Rightarrow> error + ustr" where
  "val2stars val not_found =
     (case map_of rating_scale val of
        Some stars \<Rightarrow> Inr stars
      | None \<Rightarrow> Inl InvalidRating)"

text \<open>Modelled from the spec: \<open>stars2val\<close> (the spec's \<open>starsToValue\<close>), absent from the
  sources; it looks the glyph string up in the scale and yields the caller's sentinel
  on any other text.\<close>

definition stars2val :: "ustr \<Rightarrow> pyval \<Rightarrow> pyval" where
  "stars2val stars not_found =
     (case map_of (map (\<lambda>(v, s). (s, v)) rating_scale) stars of
        Some val \<Rightarrow> VFloat val
      | None \<Rightarrow> not_found)"

definition valid_increments :: "rat list" where
  "valid_increments = [1/2, 1, 3/2, 2, 5/2, 3, 7/2, 4, 9/2, 5]"

section \<open>Python text primitives\<close>

text \<open>
  Result plumbing: \<open>bnd\<close> sequences two steps and stops at the first exception;
  \<open>catch\<close> is a bare \<open>try ... except:\<close> with a default; \<open>catch_only\<close> is
  \<open>except (E1, E2, ...)\<close>, which lets every other exception through.
\<close>

definition bnd :: "error + 'a \<Rightarrow> ('a \<Rightarrow> error + 'b) \<Rightarrow> error + 'b" where
  "bnd m f = (case m of Inl e \<Rightarrow> Inl e | Inr x \<Rightarrow> f x)"

definition catch :: "error + 'a \<Rightarrow> 'a \<Rightarrow> 'a" where
  "catch m d = (case m of Inl e \<Rightarrow> d | Inr x \<Rightarrow> x)"

definition catch_only :: "error list \<Rightarrow> error + 'a \<Rightarrow> 'a \<Rightarrow> error + 'a" where
  "catch_only es m d =
     (case m of Inl e \<Rightarrow> (if e \<in> set es then Inr d else Inl e) | Inr x \<Rightarrow> Inr x)"

text \<open>A method call or attribute access on \<open>None\<close> raises AttributeError; a subscript
  on \<open>None\<close> raises TypeError; a subscript with a missing key raises KeyError.\<close>

definition attr_of :: "'a option \<Rightarrow> error + 'a" where
  "attr_of x = (case x of None \<Rightarrow> Inl AttributeError | Some v \<Rightarrow> Inr v)"

definition subscript_of :: "'a option \<Rightarrow> error + 'a" where
  "subscript_of x = (case x of None \<Rightarrow> Inl TypeError | Some v \<Rightarrow> Inr v)"

definition key_of :: "'a option \<Rightarrow> error + 'a" where
  "key_of x = (case x of None \<Rightarrow> Inl KeyError | Some v \<Rightarrow> Inr v)"

text \<open>\<open>xs[0]\<close> and \<open>xs[-1]\<close> raise IndexError on an empty sequence.\<close>

definition first_of :: "'a list \<Rightarrow> error + 'a" where
  "first_of xs = (case xs of [] \<Rightarrow> Inl IndexError | x # _ \<Rightarrow> Inr x)"

definition last_of :: "'a list \<Rightarrow> error + 'a" where
  "last_of xs = (case rev xs of [] \<Rightarrow> Inl IndexError | x # _ \<Rightarrow> Inr x)"

text \<open>
  The regular expression class \<open>\d\<close> of a \<open>str\<close> pattern, \<open>int\<close> and \<open>float\<close> accept
  every Unicode decimal digit (category Nd), not only the ASCII ones. The decimal
  digits come in runs of ten, from the digit zero of a script to its digit nine;
  \<open>decimal_zeros\<close> lists the 66 digits zero of Unicode 14.0 (the table of Python 3.11),
  the ASCII zero first. The value of a digit is its distance from the zero of its run.
\<close>

definition decimal_zeros :: "nat list" where
  "decimal_zeros =
     [48, 1632, 1776, 1984, 2406, 2534, 2662, 2790, 2918, 3046, 3174, 3302, 3430, 3558,
      3664, 3792, 3872, 4160, 4240, 6112, 6160, 6470, 6608, 6784, 6800, 6992, 7088, 7232,
      7248, 42528, 43216, 43264, 43472, 43504, 43600, 44016, 65296, 66720, 68912, 69734,
      69872, 69942, 70096, 70384, 70736, 70864, 71248, 71360, 71472, 71904, 72016, 72784,
      73040, 73120, 92768, 92864, 93008, 120782, 120792, 120802, 120812, 120822, 123200,
      123632, 125264, 130032]"

definition is_digit :: "nat \<Rightarrow> bool" where
  "is_digit c = list_ex (\<lambda>z. z \<le> c \<and> c \<le> z + 9) decimal_zeros"

definition digit_value :: "nat \<Rightarrow> nat" where
  "digit_value c =
     (case filter (\<lambda>z. z \<le> c \<and> c \<le> z + 9) decimal_zeros of
        [] \<Rightarrow> 0
      | z # _ \<Rightarrow> c - z)"

text \<open>The code points \<open>str.strip()\<close> removes (those with \<open>str.isspace()\<close>).\<close>

definition is_space :: "nat \<Rightarrow> bool" where
  "is_space c =
     ((9 \<le> c \<and> c \<le> 13) \<or> (28 \<le> c \<and> c \<le> 32) \<or> c = 133 \<or> c = 160 \<or> c = 5760
      \<or> (8192 \<le> c \<and> c \<le> 8202) \<or> c = 8232 \<or> c = 8233 \<or> c = 8239 \<or> c = 8287
      \<or> c = 12288)"

definition strip_where :: "(nat \<Rightarrow> bool) \<Rightarrow> ustr \<Rightarrow> ustr" where
  "strip_where P s = rev (dropWhile P (rev (dropWhile P s)))"

definition strip :: "ustr \<Rightarrow> ustr" where
  "strip s = strip_where is_space s"

definition strip_chars :: "ustr \<Rightarrow> ustr \<Rightarrow> ustr" where
  "strip_chars cs s = strip_where (\<lambda>c. c \<in> set cs) s"

definition rstrip_chars :: "ustr \<Rightarrow> ustr \<Rightarrow> ustr" where
  "rstrip_chars cs s = rev (dropWhile (\<lambda>c. c \<in> set cs) (rev s))"

text \<open>\<open>s.split(c)\<close> for a one-character separator: never empty.\<close>

fun split_on :: "nat \<Rightarrow> ustr \<Rightarrow> ustr list" where
  "split_on c [] = [[]]"
| "split_on c (x # xs) =
     (if x = c then [] # split_on c xs
      else (case split_on c xs of
              [] \<Rightarrow> [[x]]
            | p # ps \<Rightarrow> (x # p) # ps))"

text \<open>\<open>xs[-2]\<close>: the last element but one, IndexError when there are fewer than two.\<close>

definition second_last_of :: "'a list \<Rightarrow> error + 'a" where
  "second_last_of xs = (case rev xs of _ # y # _ \<Rightarrow> Inr y | _ \<Rightarrow> Inl IndexError)"

text \<open>\<open>re.findall(r'\d+', s)\<close>: the maximal runs of digits, left to right.\<close>

fun digit_runs_acc :: "ustr \<Rightarrow> ustr \<Rightarrow> ustr list" where
  "digit_runs_acc cur [] = (if cur = [] then [] else [rev cur])"
| "digit_runs_acc cur (x # xs) =
     (if is_digit x then digit_runs_acc (x # cur) xs
      else if cur = [] then digit_runs_acc [] xs
      else rev cur # digit_runs_acc [] xs)"

definition digit_runs :: "ustr \<Rightarrow> ustr list" where
  "digit_runs s = digit_runs_acc [] s"

text \<open>The value of a string of decimal digits, and the decimal text of a number
  (\<open>str(n)\<close>, \<open>f"{n}"\<close>).\<close>

definition digits_value :: "ustr \<Rightarrow> nat" where
  "digits_value ds = foldl (\<lambda>a c. 10 * a + digit_value c) 0 ds"

fun str_nat :: "nat \<Rightarrow> ustr" where
  "str_nat n = (if n < 10 then [48 + n] else str_nat (n div 10) @ [48 + n mod 10])"

definition str_int :: "int \<Rightarrow> ustr" where
  "str_int i = (if i < 0 then 45 # str_nat (nat (- i)) else str_nat (nat i))"

text \<open>
  The \<open>digitpart\<close> of Python's numeric grammar: a digit followed by digits, each
  optionally preceded by a single underscore. \<open>digitpart\<close> returns the digits read
  (underscores dropped) and the rest of the text.
\<close>

fun digitpart_rest :: "ustr \<Rightarrow> ustr \<times> ustr" where
  "digitpart_rest [] = ([], [])"
| "digitpart_rest [c] = (if is_digit c then ([c], []) else ([], [c]))"
| "digitpart_rest (c # d # cs) =
     (if is_digit c then (case digitpart_rest (d # cs) of (ds, r) \<Rightarrow> (c # ds, r))
      else if c = 95 \<and> is_digit d then digitpart_rest (d # cs)
      else ([], c # d # cs))"

definition digitpart :: "ustr \<Rightarrow> (ustr \<times> ustr) option" where
  "digitpart s =
     (case s of
        [] \<Rightarrow> None
      | c # cs \<Rightarrow> if is_digit c then Some (digitpart_rest s) else None)"

text \<open>An optional sign: \<open>True\<close> for a minus.\<close>

definition sign_of :: "ustr \<Rightarrow> bool \<times> ustr" where
  "sign_of s =
     (case s of
        [] \<Rightarrow> (False, [])
      | c # cs \<Rightarrow> if c = 45 then (True, cs) else if c = 43 then (False, cs) else (False, s))"

text \<open>\<open>int(s)\<close> on text: surrounding whitespace, an optional sign and one
  \<open>digitpart\<close>; anything else raises ValueError.\<close>

definition py_int :: "ustr \<Rightarrow> error + int" where
  "py_int s =
     (case sign_of (strip s) of (neg, t) \<Rightarrow>
        (case digitpart t of
           Some (ds, []) \<Rightarrow>
             Inr (if neg then - int (digits_value ds) else int (digits_value ds))
         | _ \<Rightarrow> Inl ValueError))"

section \<open>Python floats\<close>

text \<open>
  A Python float is an IEEE 754 double. A finite double is modelled by the rational it
  denotes (the sign of zero is not kept); \<open>to_double\<close> rounds a rational to the nearest
  double, ties to even, with 53 bits of precision, gradual underflow below
  \<open>2 ^ -1022\<close> and overflow to infinity from \<open>2 ^ 1024\<close>. \<open>VInf True\<close> is minus
  infinity. \<open>floor_log2 q\<close> is the exponent \<open>k\<close> with \<open>2 ^ k \<le> q < 2 ^ (k + 1)\<close>
  of a positive rational.
\<close>

definition floor_log2 :: "rat \<Rightarrow> int" where
  "floor_log2 q = (if 1 \<le> q then bitlen \<lfloor>q\<rfloor> - 1 else - bitlen (\<lceil>1 / q\<rceil> - 1))"

definition round_half_even :: "rat \<Rightarrow> int" where
  "round_half_even q =
     (let f = \<lfloor>q\<rfloor>; r = q - of_int f
      in if r < 1/2 then f else if 1/2 < r then f + 1 else if even f then f else f + 1)"

definition to_double :: "rat \<Rightarrow> pyval" where
  "to_double q =
     (if q = 0 then VFloat 0
      else (let a = \<bar>q\<bar>;
                e = max (floor_log2 a - 52) (- 1074);
                r = of_int (round_half_even (a / 2 powi e)) * 2 powi e
            in if 2 ^ 1024 \<le> r then VInf (q < 0)
               else VFloat (if q < 0 then - r else r)))"

text \<open>\<open>x * 1000\<close> on a float, \<open>int(x)\<close> on a float (truncation towards zero), and
  the true division \<open>n / 2\<close> of an integer, which raises OverflowError instead of
  returning infinity.\<close>

definition float_times_1000 :: "pyval \<Rightarrow> pyval" where
  "float_times_1000 x = (case x of VFloat q \<Rightarrow> to_double (q * 1000) | _ \<Rightarrow> x)"

definition int_of_float :: "pyval \<Rightarrow> error + int" where
  "int_of_float x =
     (case x of
        VFloat q \<Rightarrow> Inr (if 0 \<le> q then \<lfloor>q\<rfloor> else \<lceil>q\<rceil>)
      | VInf _ \<Rightarrow> Inl OverflowError
      | VNaN \<Rightarrow> Inl ValueError
      | _ \<Rightarrow> Inl TypeError)"

definition int_halved :: "int \<Rightarrow> error + pyval" where
  "int_halved n =
     (case to_double (of_int n / 2) of VInf _ \<Rightarrow> Inl OverflowError | v \<Rightarrow> Inr v)"

text \<open>
  \<open>float(s)\<close> on text: surrounding whitespace, an optional sign, then \<open>inf\<close>,
  \<open>infinity\<close> or \<open>nan\<close> in any case, or a decimal number
  \<open>[digitpart] "." digitpart | digitpart ["."]\<close> with an optional exponent
  \<open>("e" | "E") [sign] digitpart\<close>. Anything else raises ValueError.
\<close>

definition lower :: "ustr \<Rightarrow> ustr" where
  "lower s = map (\<lambda>c. if 65 \<le> c \<and> c \<le> 90 then c + 32 else c) s"

definition float_exponent :: "ustr \<Rightarrow> error + int" where
  "float_exponent r =
     (case r of
        [] \<Rightarrow> Inr 0
      | c # r' \<Rightarrow>
          if c = 101 \<or> c = 69 then
            (case sign_of r' of (neg, t) \<Rightarrow>
               (case digitpart t of
                  Some (ds, []) \<Rightarrow>
                    Inr (if neg then - int (digits_value ds) else int (digits_value ds))
                | _ \<Rightarrow> Inl ValueError))
          else Inl ValueError)"

definition float_number :: "ustr \<Rightarrow> ustr \<Rightarrow> ustr \<Rightarrow> error + rat" where
  "float_number ip fp r =
     bnd (float_exponent r) (\<lambda>ex.
       Inr (of_nat (digits_value (ip @ fp)) * 10 powi (ex - int (length fp))))"

definition float_magnitude :: "ustr \<Rightarrow> error + rat" where
  "float_magnitude t =
     (case digitpart t of
        Some (ip, r1) \<Rightarrow>
          (case r1 of
             [] \<Rightarrow> float_number ip [] []
           | c # r2 \<Rightarrow>
               if c = 46 then
                 (case digitpart r2 of
                    Some (fp, r3) \<Rightarrow> float_number ip fp r3
                  | None \<Rightarrow> float_number ip [] r2)
               else float_number ip [] r1)
      | None \<Rightarrow>
          (case t of
             [] \<Rightarrow> Inl ValueError
           | c # r2 \<Rightarrow>
               if c = 46 then
                 (case digitpart r2 of
                    Some (fp, r3) \<Rightarrow> float_number [] fp r3
                  | None \<Rightarrow> Inl ValueError)
               else Inl ValueError))"

definition py_float :: "ustr \<Rightarrow> error + pyval" where
  "py_float s =
     (case sign_of (strip s) of (neg, t) \<Rightarrow>
        if lower t = lit ''inf'' \<or> lower t = lit ''infinity'' then Inr (VInf neg)
        else if lower t = lit ''nan'' then Inr VNaN
        else bnd (float_magnitude t) (\<lambda>q. Inr (to_double (if neg then - q else q))))"

section \<open>The fan count (scrape_film, lines 259-271)\<close>

text \<open>
  \<open>re.findall(r'\d+.\d+K?|\d+K?', fans)[0]\<close>: the first match starts at the first
  digit of the text. There the first alternative takes the whole run of digits, one
  more character that is not a newline (the dot of the pattern is not escaped), the
  next run of digits and a following \<open>K\<close>; when that fails, backtracking inside the
  first alternative and the second alternative both give the run of digits and a
  following \<open>K\<close>. No digit at all gives an empty list, and \<open>[0]\<close> raises IndexError.
\<close>

definition opt_K :: "ustr \<Rightarrow> ustr" where
  "opt_K r = (case r of [] \<Rightarrow> [] | c # _ \<Rightarrow> if c = 75 then [75] else [])"

definition fans_token :: "ustr \<Rightarrow> error + ustr" where
  "fans_token s =
     (let t = dropWhile (\<lambda>c. \<not> is_digit c) s in
      if t = [] then Inl IndexError
      else (let d = takeWhile is_digit t; r = dropWhile is_digit t in
            case r of
              c # x # r' \<Rightarrow>
                if c \<noteq> 10 \<and> is_digit x
                then Inr (d @ [c] @ takeWhile is_digit (x # r')
                          @ opt_K (dropWhile is_digit (x # r')))
                else Inr (d @ opt_K r)
            | _ \<Rightarrow> Inr (d @ opt_K r)))"

text \<open>
  The branches of lines 263-268. The first test is \<open>"." and "K" in fans\<close>: the
  literal \<open>"."\<close> is a non-empty string, hence true, so the test is \<open>"K" in fans\<close>.
\<close>

definition fans_number :: "ustr \<Rightarrow> error + int" where
  "fans_number fans =
     (if lit ''.'' \<noteq> [] \<and> 75 \<in> set fans then
        bnd (py_float (butlast fans)) (\<lambda>x. int_of_float (float_times_1000 x))
      else if 75 \<in> set fans then
        bnd (last_of fans) (\<lambda>c. bnd (py_int [c]) (\<lambda>n. Inr (n * 1000)))
      else py_int fans)"

text \<open>The whole \<open>try\<close> block on the text of the fans link (\<open>None\<close> when the page
  has no such link): any exception gives 0.\<close>

definition parse_fans :: "ustr option \<Rightarrow> int" where
  "parse_fans link_text =
     catch (bnd (attr_of link_text) (\<lambda>fans. bnd (fans_token fans) fans_number)) 0"

text \<open>The count of lines 241-243, 246-248 and 251-253:
  \<open>int(''.join(re.findall(r'\d+', title)))\<close>, not guarded by any \<open>try\<close>.\<close>

definition parse_count :: "ustr \<Rightarrow> error + int" where
  "parse_count title = py_int (concat (digit_runs title))"

section \<open>Documents and the network\<close>

text \<open>
  The HTML query capability (BeautifulSoup) and the HTTP transport (requests) are
  collaborators of the scraper. A parsed element is modelled by what the code can
  observe of it: its attributes, its text pieces in document order, its direct
  children rendered as text, and the ordered answer it gives to each query the code
  poses, the query written as a selector string. \<open>find_all\<close> is the whole answer and
  \<open>find\<close> its first element or \<open>None\<close>.
\<close>

datatype node =
  Node (attrs: "(string \<times> ustr) list") (strings: "ustr list") (contents: "ustr list")
       (answers: "(string \<times> node list) list")

definition find_all :: "node \<Rightarrow> string \<Rightarrow> node list" where
  "find_all n sel = (case map_of (answers n) sel of None \<Rightarrow> [] | Some ns \<Rightarrow> ns)"

definition find :: "node \<Rightarrow> string \<Rightarrow> node option" where
  "find n sel = (case find_all n sel of [] \<Rightarrow> None | x # _ \<Rightarrow> Some x)"

definition get_attr :: "node \<Rightarrow> string \<Rightarrow> ustr option" where
  "get_attr n a = map_of (attrs n) a"

definition text_of :: "node \<Rightarrow> ustr" where
  "text_of n = concat (strings n)"

text \<open>\<open>get_text(strip=True)\<close>: every piece stripped, empty pieces dropped.\<close>

definition get_text_strip :: "node \<Rightarrow> ustr" where
  "get_text_strip n = concat (filter (\<lambda>s. s \<noteq> []) (map strip (strings n)))"

text \<open>
  A response carries its status code and its body, the body already parsed. The web
  answers each URL with a response or with a transport exception; it answers the same
  URL the same way throughout one crawl.
\<close>

record response =
  status_code :: nat
  content :: node

type_synonym web = "ustr \<Rightarrow> error + response"

type_synonym film_dict = "(ustr \<times> pyval) list"

definition domain :: ustr where
  "domain = lit ''https://letterboxd.com/''"

text \<open>A list comprehension whose element expression can raise.\<close>

fun map_err :: "('a \<Rightarrow> error + 'b) \<Rightarrow> 'a list \<Rightarrow> error + 'b list" where
  "map_err f [] = Inr []"
| "map_err f (x # xs) = bnd (f x) (\<lambda>y. bnd (map_err f xs) (\<lambda>ys. Inr (y # ys)))"

section \<open>scrape_film\<close>

subsection \<open>Fields read from the film page (lines 125-233)\<close>

definition film_card_of :: "node \<Rightarrow> error + ustr" where
  "film_card_of film_html =
     bnd (attr_of (find film_html ''div'')) (\<lambda>d.
     bnd (subscript_of (get_attr d ''data-target-link'')) (\<lambda>link. Inr (drop 1 link)))"

definition film_title_of :: "node \<Rightarrow> error + ustr" where
  "film_title_of film_soup =
     bnd (attr_of (find film_soup ''div.col-17'')) (\<lambda>d.
     bnd (attr_of (find d ''h1'')) (\<lambda>h. Inr (text_of h)))"

definition release_year_of :: "node \<Rightarrow> error + int" where
  "release_year_of film_soup =
     catch_only [AttributeError, IndexError, ValueError]
       (let release_years = find_all film_soup ''div.releaseyear'' in
        if length release_years > 1 then
          bnd (attr_of (find (release_years ! 1) ''a'')) (\<lambda>a.
            let year_text = strip (text_of a) in
            if year_text \<noteq> [] then py_int year_text else Inr 0)
        else Inr 0)
       0"

definition director_of :: "node \<Rightarrow> pyval \<Rightarrow> error + pyval" where
  "director_of film_soup not_found =
     bnd (attr_of (find film_soup ''meta[name=twitter:data1]'')) (\<lambda>m.
     bnd (key_of (get_attr m ''content'')) (\<lambda>director.
       Inr (if director = [] then not_found else VStr director)))"

definition show_all :: ustr where
  "show_all = lit ''Show All'' @ [8230]"

definition cast_of :: "node \<Rightarrow> pyval \<Rightarrow> pyval" where
  "cast_of film_soup not_found =
     catch
       (bnd (attr_of (find film_soup ''div#tab-cast'')) (\<lambda>d.
        bnd (map_err (\<lambda>line. first_of (contents line)) (find_all d ''a'')) (\<lambda>cast.
          Inr (VList (filter (\<lambda>i. i \<noteq> show_all) cast)))))
       not_found"

definition average_rating_of :: "node \<Rightarrow> pyval \<Rightarrow> pyval" where
  "average_rating_of film_soup not_found =
     catch
       (bnd (attr_of (find film_soup ''meta[name=twitter:data2]'')) (\<lambda>m.
        bnd (key_of (get_attr m ''content'')) (\<lambda>c. py_float (take 4 c))))
       not_found"

definition owner_rating_of :: "node \<Rightarrow> pyval \<Rightarrow> pyval" where
  "owner_rating_of film_html not_found =
     (case
        bnd (key_of (get_attr film_html ''data-owner-rating'')) (\<lambda>stringval.
          if stringval \<noteq> lit ''0'' then bnd (py_int stringval) int_halved
          else Inr not_found)
      of
        Inr v \<Rightarrow> v
      | Inl e \<Rightarrow>
          catch
            (bnd (last_of (find_all film_html ''span'')) (\<lambda>sp.
               Inr (stars2val (text_of sp) not_found)))
            not_found)"

definition genres_of :: "node \<Rightarrow> pyval \<Rightarrow> pyval" where
  "genres_of film_soup not_found =
     catch
       (bnd (attr_of (find film_soup ''div.text-sluglist.capitalize'')) (\<lambda>genres.
          Inr (VList (map text_of (find_all genres ''a.text-slug'')))))
       not_found"

text \<open>\<open>re.search(r'\d+', text).group()\<close>: the first run of digits; without one,
  \<open>search\<close> returns \<open>None\<close> and \<open>.group()\<close> raises AttributeError.\<close>

definition runtime_of :: "node \<Rightarrow> pyval \<Rightarrow> pyval" where
  "runtime_of film_soup not_found =
     catch
       (bnd (attr_of (find film_soup ''p.text-link.text-footer'')) (\<lambda>p.
        bnd (attr_of (case digit_runs (text_of p) of [] \<Rightarrow> None | r # _ \<Rightarrow> Some r)) (\<lambda>r.
        bnd (py_int r) (\<lambda>n. Inr (VInt n)))))
       not_found"

text \<open>Countries and studios: the first child of every matching link of the details
  tab; an empty list is replaced by the sentinel.\<close>

definition details_links_of :: "node \<Rightarrow> string \<Rightarrow> pyval \<Rightarrow> pyval" where
  "details_links_of film_soup sel not_found =
     catch
       (bnd (attr_of (find film_soup ''div#tab-details'')) (\<lambda>d.
        bnd (map_err (\<lambda>line. first_of (contents line)) (find_all d sel)) (\<lambda>xs.
          Inr (if xs = [] then not_found else VList xs))))
       not_found"

text \<open>\<open>list(sorted(set(languages), key=languages.index))\<close>: the distinct languages
  in the order of their first occurrence.\<close>

definition unique_in_order :: "'a list \<Rightarrow> 'a list" where
  "unique_in_order xs = rev (remdups (rev xs))"

definition languages_of :: "node \<Rightarrow> pyval \<Rightarrow> pyval \<times> pyval" where
  "languages_of film_soup not_found =
     catch
       (bnd (attr_of (find film_soup ''div#tab-details'')) (\<lambda>d.
        bnd (map_err (\<lambda>line. bnd (first_of (contents line)) (\<lambda>c.
               Inr (map (\<lambda>x. if x = 160 then 32 else x) c)))
              (find_all d ''a[href~=language]'')) (\<lambda>languages.
        bnd (first_of languages) (\<lambda>original.
          Inr (VStr original, VList (unique_in_order languages))))))
       (not_found, not_found)"

definition description_of :: "node \<Rightarrow> pyval \<Rightarrow> pyval" where
  "description_of film_soup not_found =
     catch
       (bnd (attr_of (find film_soup ''meta[name=description]'')) (\<lambda>m.
        bnd (key_of (get_attr m ''content'')) (\<lambda>c. Inr (VStr c))))
       not_found"

definition film_page_fields :: "node \<Rightarrow> node \<Rightarrow> pyval \<Rightarrow> error + film_dict" where
  "film_page_fields film_html film_soup not_found =
     bnd (film_title_of film_soup) (\<lambda>title.
     bnd (release_year_of film_soup) (\<lambda>release_year.
     bnd (director_of film_soup not_found) (\<lambda>director.
       Inr [(lit ''Film_title'', VStr title),
            (lit ''Release_year'', if release_year = 0 then not_found else VInt release_year),
            (lit ''Director'', director),
            (lit ''Cast'', cast_of film_soup not_found),
            (lit ''Average_rating'', average_rating_of film_soup not_found),
            (lit ''Owner_rating'', owner_rating_of film_html not_found),
            (lit ''Genres'', genres_of film_soup not_found),
            (lit ''Runtime'', runtime_of film_soup not_found),
            (lit ''Countries'', details_links_of film_soup ''a[href~=country]'' not_found),
            (lit ''Original_language'', fst (languages_of film_soup not_found)),
            (lit ''Spoken_languages'', snd (languages_of film_soup not_found)),
            (lit ''Description'', description_of film_soup not_found),
            (lit ''Studios'', details_links_of film_soup ''a[href~=studio]'' not_found)])))"

subsection \<open>Fields read from the stats fragment (lines 235-253)\<close>

definition stat_of :: "node \<Rightarrow> string \<Rightarrow> error + pyval" where
  "stat_of stats_soup sel =
     bnd (subscript_of (find stats_soup sel)) (\<lambda>a.
     bnd (key_of (get_attr a ''title'')) (\<lambda>title.
     bnd (parse_count title) (\<lambda>n. Inr (VInt n))))"

definition stats_fields :: "node \<Rightarrow> film_dict \<Rightarrow> error + film_dict" where
  "stats_fields stats_soup film_dict =
     bnd (stat_of stats_soup ''a.has-icon.icon-watched.icon-16.tooltip'') (\<lambda>watches.
     bnd (stat_of stats_soup ''a.has-icon.icon-list.icon-16.tooltip'') (\<lambda>list_appearances.
     bnd (stat_of stats_soup ''a.has-icon.icon-like.icon-liked.icon-16.tooltip'') (\<lambda>likes.
       Inr (AList.update (lit ''Likes'') likes
             (AList.update (lit ''List_appearances'') list_appearances
               (AList.update (lit ''Watches'') watches film_dict))))))"

subsection \<open>Fields read from the rating histogram fragment (lines 255-294)\<close>

text \<open>The loop over the histogram bars, with the index \<open>i\<close> of \<open>enumerate\<close>, the
  dictionary and the running total.\<close>

fun histogram_bars ::
  "nat \<Rightarrow> node list \<Rightarrow> pyval \<Rightarrow> film_dict \<Rightarrow> int \<Rightarrow> error + (film_dict \<times> int)" where
  "histogram_bars i [] not_found film_dict tot_ratings = Inr (film_dict, tot_ratings)"
| "histogram_bars i (r # rs) not_found film_dict tot_ratings =
     (let string = strip_chars [32] (text_of r) in
      bnd (val2stars (of_nat (i + 1) / 2) not_found) (\<lambda>stars.
        if string = [] then
          histogram_bars (i + 1) rs not_found (AList.update stars (VInt 0) film_dict)
            tot_ratings
        else
          bnd (py_int (concat (butlast (digit_runs string)))) (\<lambda>Nratings.
            histogram_bars (i + 1) rs not_found
              (AList.update stars (VInt Nratings) film_dict) (tot_ratings + Nratings))))"

text \<open>The \<open>else\<close> branch: \<open>for i in range(10)\<close>, every bucket set to 0.\<close>

fun histogram_zeros :: "nat list \<Rightarrow> pyval \<Rightarrow> film_dict \<Rightarrow> error + film_dict" where
  "histogram_zeros [] not_found film_dict = Inr film_dict"
| "histogram_zeros (i # is) not_found film_dict =
     bnd (val2stars (of_nat (i + 1) / 2) not_found) (\<lambda>stars.
       histogram_zeros is not_found (AList.update stars (VInt 0) film_dict))"

definition histogram_fields :: "node \<Rightarrow> pyval \<Rightarrow> film_dict \<Rightarrow> error + film_dict" where
  "histogram_fields hist_soup not_found film_dict =
     (let fans = parse_fans (map_option text_of (find hist_soup ''a.all-link.more-link''));
          film_dict = AList.update (lit ''Fans'') (VInt fans) film_dict;
          ratings = find_all hist_soup ''li.rating-histogram-bar''
      in bnd (if length ratings \<noteq> 0
              then histogram_bars 0 ratings not_found film_dict 0
              else bnd (histogram_zeros [0..<10] not_found film_dict) (\<lambda>d. Inr (d, 0)))
           (\<lambda>(film_dict, tot_ratings).
              Inr (AList.update (lit ''Total_ratings'') (VInt tot_ratings) film_dict)))"

subsection \<open>The whole function\<close>

definition scrape_film :: "web \<Rightarrow> node \<Rightarrow> pyval \<Rightarrow> error + film_dict" where
  "scrape_film get film_html not_found =
     bnd (film_card_of film_html) (\<lambda>film_card.
     let film_url = domain @ film_card in
     bnd (get film_url) (\<lambda>filmget.
     bnd (film_page_fields film_html (content filmget) not_found) (\<lambda>film_dict.
     bnd (second_last_of (split_on 47 film_url)) (\<lambda>movie.
     bnd (get (lit ''https://letterboxd.com/csi/film/'' @ movie @ lit ''/stats/'')) (\<lambda>r.
     bnd (stats_fields (content r) film_dict) (\<lambda>film_dict.
     bnd (get (lit ''https://letterboxd.com/csi/film/'' @ movie
               @ lit ''/rating-histogram/'')) (\<lambda>r.
     bnd (histogram_fields (content r) not_found film_dict) (\<lambda>film_dict.
       Inr (AList.update (lit ''Film_URL'') (VStr film_url) film_dict)))))))))"

section \<open>scrape_page\<close>

text \<open>The loop over the \<open>li\<close> entries of a page (lines 96-104): an entry whose
  \<open>scrape_film\<close> raises is reported and left out.\<close>

fun page_films_of :: "web \<Rightarrow> pyval \<Rightarrow> bool \<Rightarrow> ustr \<Rightarrow> node list \<Rightarrow> film_dict list" where
  "page_films_of get not_found concat_flag og_list_url [] = []"
| "page_films_of get not_found concat_flag og_list_url (film # films) =
     (case scrape_film get film not_found of
        Inr film_dict \<Rightarrow>
          (if concat_flag then AList.update (lit ''List_URL'') (VStr og_list_url) film_dict
           else film_dict)
          # page_films_of get not_found concat_flag og_list_url films
      | Inl e \<Rightarrow> page_films_of get not_found concat_flag og_list_url films)"

definition scrape_page ::
  "web \<Rightarrow> ustr \<Rightarrow> ustr \<Rightarrow> ustr \<Rightarrow> ustr \<Rightarrow> bool \<Rightarrow> bool
     \<Rightarrow> error + (film_dict list \<times> node option)" where
  "scrape_page get list_url og_list_url output_file_extension list_type quiet concat_flag =
     bnd (get list_url) (\<lambda>response.
       if status_code response \<noteq> 200 then Inr ([], None)
       else
         (let soup = content response;
              table =
                (case find soup ''ul.poster-list'' of
                   Some t \<Rightarrow> Some t
                 | None \<Rightarrow>
                     (case find soup ''ul.list-entries'' of
                        Some t \<Rightarrow> Some t
                      | None \<Rightarrow> find soup ''section.poster-list''))
          in case table of
               None \<Rightarrow> Inr ([], Some soup)
             | Some t \<Rightarrow>
                 (let films = find_all t ''li'' in
                  if films = [] then Inr ([], Some soup)
                  else
                    (let not_found =
                           (if output_file_extension = lit ''.csv'' then VNaN else VNone)
                     in Inr (page_films_of get not_found concat_flag og_list_url films,
                             Some soup)))))"

section \<open>scrape_diary\<close>

text \<open>
  The names bound at module level in \<open>scrape_functions.py\<close>: the imports of lines 1-6,
  \<open>_domain\<close> and the four functions. A name that is neither local, nor bound here,
  nor a builtin raises NameError when it is evaluated.
\<close>

definition module_globals :: "string list" where
  "module_globals =
     [''val2stars'', ''stars2val'', ''BeautifulSoup'', ''tqdm'', ''requests'', ''np'',
      ''re'', ''_domain'', ''scrape_list'', ''scrape_page'', ''scrape_film'',
      ''scrape_diary'']"

definition global_name :: "string \<Rightarrow> error + unit" where
  "global_name name = (if name \<in> set module_globals then Inr () else Inl NameError)"

datatype page_options = AllPages | Pages "int list"

text \<open>The first of several optional tags that is not \<open>None\<close> (\<open>a or b or c\<close> on
  tags, which are always true).\<close>

fun first_tag :: "node option list \<Rightarrow> node option" where
  "first_tag [] = None"
| "first_tag (Some t # ts) = Some t"
| "first_tag (None # ts) = first_tag ts"

definition stripped_text_or_empty :: "node option \<Rightarrow> ustr" where
  "stripped_text_or_empty tag = (case tag of None \<Rightarrow> [] | Some t \<Rightarrow> get_text_strip t)"

definition diary_rating_of :: "node \<Rightarrow> error + pyval" where
  "diary_rating_of e =
     (case find e ''.rating, .film-rating, .diary-rating'' of
        None \<Rightarrow> Inr VNone
      | Some rating_tag \<Rightarrow>
          (case get_attr rating_tag ''data-rating'' of
             Some r \<Rightarrow> py_float r
           | None \<Rightarrow>
               (let rating_text = get_text_strip rating_tag
                in Inr (catch (py_float rating_text) (VStr rating_text)))))"

definition diary_entry_of :: "node \<Rightarrow> error + film_dict" where
  "diary_entry_of e =
     (let date_tag = first_tag [find e ''[class*=entry-dates]'', find e ''time'',
                                find e ''span.date''];
          date = stripped_text_or_empty date_tag;
          film_link = find e ''a[href]'';
          film_title = stripped_text_or_empty film_link
      in bnd (case film_link of
                None \<Rightarrow> Inr []
              | Some l \<Rightarrow> bnd (key_of (get_attr l ''href'')) (\<lambda>h.
                            Inr (lit ''https://letterboxd.com'' @ h))) (\<lambda>film_url.
         let year_tag = first_tag [find e ''small.year'', find e ''span.film-year''];
             year = strip_chars (lit ''()'') (stripped_text_or_empty year_tag)
         in bnd (diary_rating_of e) (\<lambda>rating.
         let review = stripped_text_or_empty (find e ''p'');
             director = []
         in Inr [(lit ''date'', VStr date),
                 (lit ''film_title'', VStr film_title),
                 (lit ''year'', VStr year),
                 (lit ''rating'', rating),
                 (lit ''review'', VStr review),
                 (lit ''film_url'', VStr film_url),
                 (lit ''director'', VStr director)])))"

text \<open>The loop over the entries of a diary page (lines 359-412): an entry that
  raises is reported and left out.\<close>

fun diary_entries_of :: "node list \<Rightarrow> film_dict list" where
  "diary_entries_of [] = []"
| "diary_entries_of (e # es) =
     (case diary_entry_of e of
        Inr d \<Rightarrow> d # diary_entries_of es
      | Inl ex \<Rightarrow> diary_entries_of es)"

text \<open>The candidate selectors of lines 339-357, tried in order, then every
  \<open>article\<close>.\<close>

fun select_entries :: "node \<Rightarrow> string list \<Rightarrow> node list" where
  "select_entries soup [] = []"
| "select_entries soup (sel # sels) =
     (let entries = find_all soup sel in
      if entries \<noteq> [] then entries else select_entries soup sels)"

definition entry_selectors :: "string list" where
  "entry_selectors = [''li.diary-entry'', ''div.diary-entry'', ''article.diary-entry'', ''li.entry'']"

definition diary_page_entries :: "node \<Rightarrow> node list" where
  "diary_page_entries soup =
     (let entries = select_entries soup entry_selectors in
      if entries = [] then find_all soup ''article'' else entries)"

text \<open>The politeness delay of line 415, \<open>time.sleep(0.25)\<close>: the name \<open>time\<close> is
  looked up, then the process waits; the waiting itself changes no value.\<close>

definition polite_sleep :: "error + unit" where
  "polite_sleep = bnd (global_name ''time'') (\<lambda>_. Inr ())"

text \<open>The loop over the pages (lines 322-415), with the list \<open>films\<close> gathered so
  far. Both \<open>continue\<close> statements skip the delay.\<close>

fun diary_pages :: "web \<Rightarrow> ustr \<Rightarrow> ustr list \<Rightarrow> film_dict list \<Rightarrow> error + film_dict list" where
  "diary_pages get base_url [] films = Inr films"
| "diary_pages get base_url (page # pages) films =
     (let page_url = rstrip_chars (lit ''/'') base_url @ lit ''/page/'' @ page @ lit ''/'' in
      bnd (get page_url) (\<lambda>resp.
        if status_code resp \<noteq> 200 then diary_pages get base_url pages films
        else
          (let entries = diary_page_entries (content resp) in
           if entries = [] then diary_pages get base_url pages films
           else
             (let films = films @ diary_entries_of entries in
              bnd polite_sleep (\<lambda>_. diary_pages get base_url pages films)))))"

text \<open>The pages of the loop: page 1 alone for an empty selection; iterating over the
  string \<open>"*"\<close> gives the one label \<open>*\<close>.\<close>

definition pages_to_scrape :: "page_options \<Rightarrow> ustr list" where
  "pages_to_scrape page_options =
     (case page_options of
        Pages [] \<Rightarrow> [str_int 1]
      | Pages ps \<Rightarrow> map str_int ps
      | AllPages \<Rightarrow> [lit ''*''])"

definition no_entries_record :: film_dict where
  "no_entries_record = [(lit ''note'', VStr (lit ''no diary entries found''))]"

definition diary_keys :: "ustr list" where
  "diary_keys = [lit ''date'', lit ''film_title'', lit ''year'', lit ''rating'', lit ''review'',
                 lit ''film_url'', lit ''director'']"

definition scrape_diary ::
  "web \<Rightarrow> ustr \<Rightarrow> page_options \<Rightarrow> ustr \<Rightarrow> bool \<Rightarrow> bool \<Rightarrow> error + film_dict list" where
  "scrape_diary get base_url page_options output_file_extension quiet concat_flag =
     bnd (global_name ''requests'') (\<lambda>_.
     bnd (diary_pages get base_url (pages_to_scrape page_options) []) (\<lambda>films.
       if films = [] then Inr [no_entries_record] else Inr films))"

section \<open>scrape_list\<close>

text \<open>
  The page-following loop of lines 25-33. It has no exit other than a page without a
  \<open>next\<close> link or an exception, so it is a partial function: \<open>None\<close> is a loop that
  never ends. A page that could not be loaded comes back from \<open>scrape_page\<close> with
  \<open>None\<close> in place of its document, and \<open>page_soup.find\<close> is then a method call on
  \<open>None\<close>.
\<close>

partial_function (option) follow_pages ::
  "web \<Rightarrow> ustr \<Rightarrow> ustr \<Rightarrow> ustr \<Rightarrow> bool \<Rightarrow> bool \<Rightarrow> film_dict list
     \<Rightarrow> (error + film_dict list) option" where
  "follow_pages get list_url output_file_extension list_type quiet concat_flag list_films =
     (case scrape_page get list_url list_url output_file_extension list_type quiet concat_flag of
        Inl e \<Rightarrow> Some (Inl e)
      | Inr (page_films, page_soup) \<Rightarrow>
          (case page_soup of
             None \<Rightarrow> Some (Inl AttributeError)
           | Some ps \<Rightarrow>
               (case find ps ''a.next'' of
                  None \<Rightarrow> Some (Inr (list_films @ page_films))
                | Some next_button \<Rightarrow>
                    (case get_attr next_button ''href'' of
                       None \<Rightarrow> Some (Inl KeyError)
                     | Some href \<Rightarrow>
                         follow_pages get (domain @ href) output_file_extension list_type
                           quiet concat_flag (list_films @ page_films)))))"

text \<open>The loop over an explicit page selection (lines 35-42): any exception of a
  page is reported and the loop goes on.\<close>

fun selected_pages ::
  "web \<Rightarrow> ustr \<Rightarrow> ustr \<Rightarrow> ustr \<Rightarrow> bool \<Rightarrow> bool \<Rightarrow> int list \<Rightarrow> film_dict list" where
  "selected_pages get list_url output_file_extension list_type quiet concat_flag [] = []"
| "selected_pages get list_url output_file_extension list_type quiet concat_flag (p # ps) =
     (let new_link = list_url @ lit ''page/'' @ str_int p @ lit ''/'' in
      (case scrape_page get new_link list_url output_file_extension list_type quiet concat_flag of
         Inr (page_films, page_soup) \<Rightarrow> page_films
       | Inl e \<Rightarrow> [])
      @ selected_pages get list_url output_file_extension list_type quiet concat_flag ps)"

text \<open>
  Writing the results (lines 48-56): the header is the key list of the first entry,
  and \<open>csv.DictWriter\<close> raises ValueError on a row with a key outside the header.
  Errors of the file system are not modelled.
\<close>

definition write_csv :: "film_dict list \<Rightarrow> error + unit" where
  "write_csv list_films =
     (case list_films of
        [] \<Rightarrow> Inr ()
      | first # _ \<Rightarrow>
          if list_all (\<lambda>row. list_all (\<lambda>k. k \<in> set (map fst first)) (map fst row)) list_films
          then Inr () else Inl ValueError)"

definition scrape_list ::
  "web \<Rightarrow> ustr \<Rightarrow> page_options \<Rightarrow> ustr \<Rightarrow> ustr \<Rightarrow> bool \<Rightarrow> bool
     \<Rightarrow> (error + film_dict list) option" where
  "scrape_list get list_url page_options output_file_extension list_type quiet concat_flag =
     (case
        (if list_type = lit ''diary'' then
           Some (scrape_diary get list_url page_options output_file_extension quiet concat_flag)
         else if page_options = Pages [] \<or> page_options = AllPages then
           follow_pages get list_url output_file_extension list_type quiet concat_flag []
         else
           Some (Inr (selected_pages get list_url output_file_extension list_type quiet concat_flag
                        (case page_options of Pages ps \<Rightarrow> ps | AllPages \<Rightarrow> []))))
      of
        None \<Rightarrow> None
      | Some (Inl e) \<Rightarrow> Some (Inl e)
      | Some (Inr list_films) \<Rightarrow>
          Some (bnd (write_csv list_films) (\<lambda>_. Inr list_films)))"

section \<open>Diary export (letterboxdpy/diary.py, lines 88-153)\<close>

text \<open>
  The diary entries arrive as JSON-like data. A dictionary is an association list in
  insertion order, with distinct keys. Python's \<open>repr\<close> of a float, a list or a
  dictionary is a builtin and a parameter \<open>repr_of\<close> of the model.
\<close>

datatype jval =
    JNone | JBool bool | JInt int | JFloat rat | JStr ustr | JList "jval list"
  | JDict "(ustr \<times> jval) list"

fun truthy :: "jval \<Rightarrow> bool" where
  "truthy JNone = False"
| "truthy (JBool b) = b"
| "truthy (JInt i) = (i \<noteq> 0)"
| "truthy (JFloat q) = (q \<noteq> 0)"
| "truthy (JStr s) = (s \<noteq> [])"
| "truthy (JList xs) = (xs \<noteq> [])"
| "truthy (JDict d) = (d \<noteq> [])"

fun is_dict :: "jval \<Rightarrow> bool" where
  "is_dict (JDict d) = True"
| "is_dict _ = False"

fun is_list :: "jval \<Rightarrow> bool" where
  "is_list (JList xs) = True"
| "is_list _ = False"

text \<open>\<open>d.get(k, default)\<close>.\<close>

definition dict_get :: "(ustr \<times> jval) list \<Rightarrow> ustr \<Rightarrow> jval \<Rightarrow> jval" where
  "dict_get d k dflt = (case map_of d k of Some v \<Rightarrow> v | None \<Rightarrow> dflt)"

text \<open>\<open>str(v)\<close>: a string is itself, an integer its decimal text.\<close>

definition py_str :: "(jval \<Rightarrow> ustr) \<Rightarrow> jval \<Rightarrow> ustr" where
  "py_str repr_of v =
     (case v of
        JStr s \<Rightarrow> s
      | JInt i \<Rightarrow> str_int i
      | JNone \<Rightarrow> lit ''None''
      | JBool b \<Rightarrow> (if b then lit ''True'' else lit ''False'')
      | _ \<Rightarrow> repr_of v)"

text \<open>Lines 94-111: the list of candidate entries.\<close>

definition normalize_entries :: "jval \<Rightarrow> jval list" where
  "normalize_entries entries =
     (case entries of
        JDict d \<Rightarrow>
          (case map_of d (lit ''entries'') of
             Some (JDict es) \<Rightarrow> map snd es
           | _ \<Rightarrow>
               if list_all is_dict (map snd d) then map snd d
               else (let possible_lists = filter is_list (map snd d) in
                     if possible_lists \<noteq> []
                     then concat (map (\<lambda>v. case v of JList xs \<Rightarrow> xs | _ \<Rightarrow> []) possible_lists)
                     else []))
      | JList xs \<Rightarrow> xs
      | _ \<Rightarrow> [])"

text \<open>\<open>int(x)\<close> on a value, and the format specifications \<open>04d\<close> and \<open>02d\<close>.\<close>

definition to_int :: "jval \<Rightarrow> error + int" where
  "to_int v =
     (case v of
        JInt i \<Rightarrow> Inr i
      | JBool b \<Rightarrow> Inr (if b then 1 else 0)
      | JFloat q \<Rightarrow> Inr (if 0 \<le> q then \<lfloor>q\<rfloor> else \<lceil>q\<rceil>)
      | JStr s \<Rightarrow> py_int s
      | _ \<Rightarrow> Inl TypeError)"

definition zero_padded :: "nat \<Rightarrow> int \<Rightarrow> ustr" where
  "zero_padded w i =
     (if i < 0
      then 45 # replicate (w - 1 - length (str_nat (nat (- i)))) 48 @ str_nat (nat (- i))
      else replicate (w - length (str_nat (nat i))) 48 @ str_nat (nat i))"

text \<open>Lines 123-131: the date cell.\<close>

definition date_str_of :: "(jval \<Rightarrow> ustr) \<Rightarrow> (ustr \<times> jval) list \<Rightarrow> ustr" where
  "date_str_of repr_of date_obj =
     (if date_obj \<noteq> []
         \<and> list_all (\<lambda>k. case map_of date_obj k of None \<Rightarrow> False | Some v \<Rightarrow> v \<noteq> JNone)
              [lit ''year'', lit ''month'', lit ''day'']
      then
        catch
          (bnd (to_int (dict_get date_obj (lit ''year'') JNone)) (\<lambda>y.
           bnd (to_int (dict_get date_obj (lit ''month'') JNone)) (\<lambda>m.
           bnd (to_int (dict_get date_obj (lit ''day'') JNone)) (\<lambda>d.
             Inr (zero_padded 4 y @ lit ''-'' @ zero_padded 2 m @ lit ''-'' @ zero_padded 2 d)))))
          (py_str repr_of (JDict date_obj))
      else if date_obj \<noteq> [] then py_str repr_of (JDict date_obj) else [])"

text \<open>\<open>x or ''\<close>, and the sub-dictionary of a key (\<open>{}\<close> unless the value is a
  dictionary).\<close>

definition or_empty :: "jval \<Rightarrow> jval" where
  "or_empty v = (if truthy v then v else JStr [])"

definition sub_dict :: "(ustr \<times> jval) list \<Rightarrow> ustr \<Rightarrow> (ustr \<times> jval) list" where
  "sub_dict entry k = (case dict_get entry k (JDict []) of JDict d \<Rightarrow> d | _ \<Rightarrow> [])"

text \<open>Lines 146-152: every cell becomes text.\<close>

definition scalar_of :: "(jval \<Rightarrow> ustr) \<Rightarrow> jval \<Rightarrow> ustr" where
  "scalar_of repr_of v =
     (case v of
        JBool b \<Rightarrow> (if b then lit ''1'' else lit ''0'')
      | JNone \<Rightarrow> []
      | _ \<Rightarrow> py_str repr_of v)"

definition fieldnames :: "ustr list" where
  "fieldnames =
     [lit ''name'', lit ''slug'', lit ''id'', lit ''release'', lit ''runtime'', lit ''rewatched'',
      lit ''rating'', lit ''liked'', lit ''reviewed'', lit ''date'']"

definition row_of :: "(jval \<Rightarrow> ustr) \<Rightarrow> (ustr \<times> jval) list \<Rightarrow> (ustr \<times> ustr) list" where
  "row_of repr_of entry =
     (let actions = sub_dict entry (lit ''actions'');
          date_obj = sub_dict entry (lit ''date'');
          date_str = date_str_of repr_of date_obj;
          row =
            [(lit ''name'', or_empty (dict_get entry (lit ''name'') (JStr []))),
             (lit ''slug'', or_empty (dict_get entry (lit ''slug'') (JStr []))),
             (lit ''id'', or_empty (dict_get entry (lit ''id'') (JStr []))),
             (lit ''release'', or_empty (dict_get entry (lit ''release'') (JStr []))),
             (lit ''runtime'', or_empty (dict_get entry (lit ''runtime'') (JStr []))),
             (lit ''rewatched'', dict_get actions (lit ''rewatched'') (JStr [])),
             (lit ''rating'', dict_get actions (lit ''rating'') (JStr [])),
             (lit ''liked'', dict_get actions (lit ''liked'') (JStr [])),
             (lit ''reviewed'', dict_get actions (lit ''reviewed'') (JStr [])),
             (lit ''date'', JStr date_str)]
      in map (\<lambda>(k, v). (k, scalar_of repr_of v)) row)"

text \<open>
  Lines 88-153: nothing is written when \<open>entries\<close> is false (\<open>None\<close> here);
  otherwise the candidates that are dictionaries (line 114) give one row each.
\<close>

definition diary_rows :: "(jval \<Rightarrow> ustr) \<Rightarrow> jval \<Rightarrow> (ustr \<times> ustr) list list option" where
  "diary_rows repr_of entries =
     (if truthy entries
      then Some (map (row_of repr_of)
                   (concat (map (\<lambda>e. case e of JDict d \<Rightarrow> [d] | _ \<Rightarrow> [])
                              (normalize_entries entries))))
      else None)"

section \<open>Notions used in the statements\<close>

text \<open>The 10 bucket fields of a record are the glyph strings of the rating scale; the
  count stored in a bucket field is its integer value.\<close>

definition bucket_keys :: "ustr list" where
  "bucket_keys = map snd rating_scale"

definition bucket_count :: "film_dict \<Rightarrow> ustr \<Rightarrow> int" where
  "bucket_count d k = (case map_of d k of Some (VInt n) \<Rightarrow> n | _ \<Rightarrow> 0)"

text \<open>
  \<open>chain_ends n\<close>: following the \<open>next\<close> links from \<open>list_url\<close>, one of the first
  \<open>n\<close> pages stops the loop of \<open>follow_pages\<close>, by having no \<open>next\<close> link or by an
  exception.
\<close>

fun chain_ends :: "nat \<Rightarrow> web \<Rightarrow> ustr \<Rightarrow> ustr \<Rightarrow> ustr \<Rightarrow> bool \<Rightarrow> bool \<Rightarrow> bool" where
  "chain_ends 0 get list_url output_file_extension list_type quiet concat_flag = False"
| "chain_ends (Suc n) get list_url output_file_extension list_type quiet concat_flag =
     (case scrape_page get list_url list_url output_file_extension list_type quiet concat_flag of
        Inl e \<Rightarrow> True
      | Inr (page_films, page_soup) \<Rightarrow>
          (case page_soup of
             None \<Rightarrow> True
           | Some ps \<Rightarrow>
               (case find ps ''a.next'' of
                  None \<Rightarrow> True
                | Some next_button \<Rightarrow>
                    (case get_attr next_button ''href'' of
                       None \<Rightarrow> True
                     | Some href \<Rightarrow>
                         chain_ends n get (domain @ href) output_file_extension list_type
                           quiet concat_flag))))"

text \<open>
  The three input shapes of the spec's schema normalizer (section 4.5), in the spec's
  words, not the code's: a keyed mapping of id to sub-record; a flat mapping already
  keyed by canonical field names; a mapping whose values are themselves sequences of
  sub-records. All three are mappings. The input of the spec's example, a mapping
  whose \<open>entries\<close> key holds a keyed mapping, is itself a keyed mapping.
\<close>

definition spec_keyed_mapping :: "jval \<Rightarrow> bool" where
  "spec_keyed_mapping v =
     (case v of JDict d \<Rightarrow> list_all is_dict (map snd d) | _ \<Rightarrow> False)"

definition spec_flat_mapping :: "jval \<Rightarrow> bool" where
  "spec_flat_mapping v =
     (case v of JDict d \<Rightarrow> list_all (\<lambda>k. k \<in> set fieldnames) (map fst d) | _ \<Rightarrow> False)"

definition spec_mapping_of_sequences :: "jval \<Rightarrow> bool" where
  "spec_mapping_of_sequences v =
     (case v of
        JDict d \<Rightarrow>
          list_all (\<lambda>x. case x of JList subs \<Rightarrow> list_all is_dict subs | _ \<Rightarrow> False) (map snd d)
      | _ \<Rightarrow> False)"

definition spec_recognized_shape :: "jval \<Rightarrow> bool" where
  "spec_recognized_shape v =
     (spec_keyed_mapping v \<or> spec_flat_mapping v \<or> spec_mapping_of_sequences v)"

section \<open>Example inputs\<close>

text \<open>A film item of a list page, the film page it links to, and the two fragments
  fetched for it. The histogram has the bucket counts 1, 0, 2, 0, 3, 0, 4, 0, 5, 0.\<close>

definition leaf :: "(string \<times> ustr) list \<Rightarrow> ustr \<Rightarrow> node" where
  "leaf as t = Node as [t] [t] []"

definition heat_page :: node where
  "heat_page =
     Node [] [] []
       [(''div.col-17'', [Node [] [] [] [(''h1'', [leaf [] (lit ''Heat'')])]]),
        (''div.releaseyear'',
           [leaf [] [], Node [] [] [] [(''a'', [leaf [] (lit ''1995'')])]]),
        (''meta[name=twitter:data1]'', [leaf [(''content'', lit ''Michael Mann'')] []]),
        (''meta[name=twitter:data2]'', [leaf [(''content'', lit ''4.25 out of 5'')] []]),
        (''p.text-link.text-footer'', [leaf [] (lit ''170 mins'')])]"

definition heat_stats :: node where
  "heat_stats =
     Node [] [] []
       [(''a.has-icon.icon-watched.icon-16.tooltip'',
           [leaf [(''title'', lit ''Watched by 3,482 members'')] []]),
        (''a.has-icon.icon-list.icon-16.tooltip'',
           [leaf [(''title'', lit ''Appears in 120 lists'')] []]),
        (''a.has-icon.icon-like.icon-liked.icon-16.tooltip'',
           [leaf [(''title'', lit ''Liked by 57 members'')] []])]"

definition heat_histogram :: node where
  "heat_histogram =
     Node [] [] []
       [(''a.all-link.more-link'', [leaf [] (lit ''1.2K fans'')]),
        (''li.rating-histogram-bar'',
           [leaf [] (lit ''1 half-star rating (7%)''), leaf [] (lit '' ''),
            leaf [] (lit ''2 ratings (13%)''), leaf [] [],
            leaf [] (lit ''3 ratings (20%)''), leaf [] [],
            leaf [] (lit ''4 ratings (27%)''), leaf [] [],
            leaf [] (lit ''5 ratings (33%)''), leaf [] []])]"

definition heat_item :: node where
  "heat_item =
     Node [(''data-owner-rating'', lit ''9'')] [] []
       [(''div'', [leaf [(''data-target-link'', lit ''/film/heat/'')] []])]"

definition web_of :: "(ustr \<times> response) list \<Rightarrow> web" where
  "web_of pages url = (case map_of pages url of Some r \<Rightarrow> Inr r | None \<Rightarrow> Inl ConnectionError)"

definition heat_web :: web where
  "heat_web =
     web_of
       [(lit ''https://letterboxd.com/film/heat/'', \<lparr>status_code = 200, content = heat_page\<rparr>),
        (lit ''https://letterboxd.com/csi/film/heat/stats/'',
           \<lparr>status_code = 200, content = heat_stats\<rparr>),
        (lit ''https://letterboxd.com/csi/film/heat/rating-histogram/'',
           \<lparr>status_code = 200, content = heat_histogram\<rparr>)]"

definition heat_record :: film_dict where
  "heat_record =
     [(lit ''Film_title'', VStr (lit ''Heat'')),
      (lit ''Release_year'', VInt 1995),
      (lit ''Director'', VStr (lit ''Michael Mann'')),
      (lit ''Cast'', VNaN),
      (lit ''Average_rating'', VFloat (17 / 4)),
      (lit ''Owner_rating'', VFloat (9 / 2)),
      (lit ''Genres'', VNaN),
      (lit ''Runtime'', VInt 170),
      (lit ''Countries'', VNaN),
      (lit ''Original_language'', VNaN),
      (lit ''Spoken_languages'', VNaN),
      (lit ''Description'', VNaN),
      (lit ''Studios'', VNaN),
      (lit ''Watches'', VInt 3482),
      (lit ''List_appearances'', VInt 120),
      (lit ''Likes'', VInt 57),
      (lit ''Fans'', VInt 1200),
      ([half], VInt 1), ([star], VInt 0), ([star, half], VInt 2),
      ([star, star], VInt 0), ([star, star, half], VInt 3),
      ([star, star, star], VInt 0), ([star, star, star, half], VInt 4),
      ([star, star, star, star], VInt 0),
      ([star, star, star, star, half], VInt 5),
      ([star, star, star, star, star], VInt 0),
      (lit ''Total_ratings'', VInt 15),
      (lit ''Film_URL'', VStr (lit ''https://letterboxd.com/film/heat/''))]"

text \<open>The same film when its page has no \<open>twitter:data1\<close> meta element.\<close>

definition heat_page_no_director :: node where
  "heat_page_no_director =
     Node [] [] []
       [(''div.col-17'', [Node [] [] [] [(''h1'', [leaf [] (lit ''Heat'')])]]),
        (''div.releaseyear'',
           [leaf [] [], Node [] [] [] [(''a'', [leaf [] (lit ''1995'')])]]),
        (''meta[name=twitter:data2]'', [leaf [(''content'', lit ''4.25 out of 5'')] []]),
        (''p.text-link.text-footer'', [leaf [] (lit ''170 mins'')])]"

definition no_director_web :: web where
  "no_director_web =
     web_of
       [(lit ''https://letterboxd.com/film/heat/'',
           \<lparr>status_code = 200, content = heat_page_no_director\<rparr>),
        (lit ''https://letterboxd.com/csi/film/heat/stats/'',
           \<lparr>status_code = 200, content = heat_stats\<rparr>),
        (lit ''https://letterboxd.com/csi/film/heat/rating-histogram/'',
           \<lparr>status_code = 200, content = heat_histogram\<rparr>)]"

text \<open>An error page: a document that answers no query.\<close>

definition error_page :: node where
  "error_page = Node [] [] [] []"

text \<open>The same film when the stats fragment answers 404, and when the histogram
  fragment answers 404.\<close>

definition stats_down_web :: web where
  "stats_down_web =
     web_of
       [(lit ''https://letterboxd.com/film/heat/'', \<lparr>status_code = 200, content = heat_page\<rparr>),
        (lit ''https://letterboxd.com/csi/film/heat/stats/'',
           \<lparr>status_code = 404, content = error_page\<rparr>),
        (lit ''https://letterboxd.com/csi/film/heat/rating-histogram/'',
           \<lparr>status_code = 200, content = heat_histogram\<rparr>)]"

definition histogram_down_web :: web where
  "histogram_down_web =
     web_of
       [(lit ''https://letterboxd.com/film/heat/'', \<lparr>status_code = 200, content = heat_page\<rparr>),
        (lit ''https://letterboxd.com/csi/film/heat/stats/'',
           \<lparr>status_code = 200, content = heat_stats\<rparr>),
        (lit ''https://letterboxd.com/csi/film/heat/rating-histogram/'',
           \<lparr>status_code = 404, content = error_page\<rparr>)]"

definition degraded_record :: film_dict where
  "degraded_record =
     take 16 heat_record @
     [(lit ''Fans'', VInt 0),
      ([half], VInt 0), ([star], VInt 0), ([star, half], VInt 0),
      ([star, star], VInt 0), ([star, star, half], VInt 0),
      ([star, star, star], VInt 0), ([star, star, star, half], VInt 0),
      ([star, star, star, star], VInt 0),
      ([star, star, star, star, half], VInt 0),
      ([star, star, star, star, star], VInt 0),
      (lit ''Total_ratings'', VInt 0),
      (lit ''Film_URL'', VStr (lit ''https://letterboxd.com/film/heat/''))]"

text \<open>A list whose pages hold the one film. Page 5 answers 404. The first page links
  to page 2 of the full crawl, which answers 404 as well.\<close>

definition top_url :: ustr where
  "top_url = lit ''https://letterboxd.com/user/list/top/''"

definition list_page :: "(string \<times> node list) list \<Rightarrow> node" where
  "list_page links =
     Node [] [] [] ((''ul.poster-list'', [Node [] [] [] [(''li'', [heat_item])]]) # links)"

definition next_link :: "ustr \<Rightarrow> (string \<times> node list) list" where
  "next_link href = [(''a.next'', [leaf [(''href'', href)] (lit ''Next'')])]"

definition top_web :: web where
  "top_web =
     web_of
       [(lit ''https://letterboxd.com/film/heat/'', \<lparr>status_code = 200, content = heat_page\<rparr>),
        (lit ''https://letterboxd.com/csi/film/heat/stats/'',
           \<lparr>status_code = 200, content = heat_stats\<rparr>),
        (lit ''https://letterboxd.com/csi/film/heat/rating-histogram/'',
           \<lparr>status_code = 200, content = heat_histogram\<rparr>),
        (lit ''https://letterboxd.com/user/list/top/'',
           \<lparr>status_code = 200,
            content = list_page (next_link (lit ''/user/list/top/page/2/''))\<rparr>),
        (lit ''https://letterboxd.com//user/list/top/page/2/'',
           \<lparr>status_code = 404, content = error_page\<rparr>),
        (lit ''https://letterboxd.com/user/list/top/page/2/'',
           \<lparr>status_code = 200, content = list_page []\<rparr>),
        (lit ''https://letterboxd.com/user/list/top/page/5/'',
           \<lparr>status_code = 404, content = error_page\<rparr>)]"

text \<open>A list of three pages without films, where the \<open>next\<close> link of page 3 is the
  URL of page 2.\<close>

definition loop_web :: web where
  "loop_web =
     web_of
       [(lit ''https://letterboxd.com/user/list/loop/'',
           \<lparr>status_code = 200,
            content = Node [] [] [] (next_link (lit ''user/list/loop/page/2/''))\<rparr>),
        (lit ''https://letterboxd.com/user/list/loop/page/2/'',
           \<lparr>status_code = 200,
            content = Node [] [] [] (next_link (lit ''user/list/loop/page/3/''))\<rparr>),
        (lit ''https://letterboxd.com/user/list/loop/page/3/'',
           \<lparr>status_code = 200,
            content = Node [] [] [] (next_link (lit ''user/list/loop/page/2/''))\<rparr>)]"

text \<open>The same list when page 3 has no \<open>next\<close> link.\<close>

definition three_pages_web :: web where
  "three_pages_web =
     web_of
       [(lit ''https://letterboxd.com/user/list/loop/'',
           \<lparr>status_code = 200,
            content = Node [] [] [] (next_link (lit ''user/list/loop/page/2/''))\<rparr>),
        (lit ''https://letterboxd.com/user/list/loop/page/2/'',
           \<lparr>status_code = 200,
            content = Node [] [] [] (next_link (lit ''user/list/loop/page/3/''))\<rparr>),
        (lit ''https://letterboxd.com/user/list/loop/page/3/'',
           \<lparr>status_code = 200, content = Node [] [] [] []\<rparr>)]"

text \<open>A diary whose pages 1 and 2 hold one entry each, and a diary whose page 1 holds
  none.\<close>

definition diary_url :: ustr where
  "diary_url = lit ''https://letterboxd.com/user/films/diary/''"

definition diary_entry :: node where
  "diary_entry =
     Node [] [] []
       [(''time'', [leaf [] (lit ''12 Mar 2024'')]),
        (''a[href]'', [leaf [(''href'', lit ''/film/heat/'')] (lit ''Heat'')]),
        (''small.year'', [leaf [] (lit ''(1995)'')]),
        (''.rating, .film-rating, .diary-rating'', [leaf [(''data-rating'', lit ''9'')] []])]"

definition diary_page :: node where
  "diary_page = Node [] [] [] [(''li.diary-entry'', [diary_entry])]"

definition diary_web :: web where
  "diary_web =
     web_of
       [(lit ''https://letterboxd.com/user/films/diary/page/1/'',
           \<lparr>status_code = 200, content = diary_page\<rparr>),
        (lit ''https://letterboxd.com/user/films/diary/page/2/'',
           \<lparr>status_code = 200, content = diary_page\<rparr>)]"

definition empty_diary_web :: web where
  "empty_diary_web =
     web_of
       [(lit ''https://letterboxd.com/user/films/diary/page/1/'',
           \<lparr>status_code = 200, content = Node [] [] [] []\<rparr>)]"

text \<open>Diary data in the \<open>entries\<close> shape with two sub-records, and a \<open>repr\<close>
  that renders every float, list and dictionary as \<open>?\<close>.\<close>

definition two_entries :: jval where
  "two_entries =
     JDict
       [(lit ''entries'',
           JDict
             [(lit ''a'',
                 JDict [(lit ''name'', JStr (lit ''Heat'')),
                        (lit ''actions'', JDict [(lit ''liked'', JBool True)]),
                        (lit ''date'',
                           JDict [(lit ''year'', JInt 2024), (lit ''month'', JInt 3),
                                  (lit ''day'', JInt 12)])]),
              (lit ''b'', JDict [])]),
        (lit ''count'', JInt 2)]"

definition question_mark :: "jval \<Rightarrow> ustr" where
  "question_mark v = lit ''?''"

text \<open>Diary data as a bare list of one sub-record, as one flat record keyed by
  canonical field names, as a keyed mapping of two sub-records and as a mapping of two
  sequences of sub-records; and the row of a sub-record that has a name only.\<close>

definition bare_list :: jval where
  "bare_list = JList [JDict [(lit ''name'', JStr (lit ''Heat''))]]"

definition flat_record :: jval where
  "flat_record = JDict [(lit ''name'', JStr (lit ''Heat'')), (lit ''slug'', JStr (lit ''heat''))]"

definition keyed_example :: jval where
  "keyed_example =
     JDict [(lit ''a'', JDict [(lit ''name'', JStr (lit ''Heat''))]), (lit ''b'', JDict [])]"

definition sequences_example :: jval where
  "sequences_example =
     JDict [(lit ''seen'', JList [JDict [(lit ''name'', JStr (lit ''Heat''))], JDict []]),
            (lit ''liked'', JList [JDict []])]"

definition blank_named :: "ustr \<Rightarrow> (ustr \<times> ustr) list" where
  "blank_named name =
     [(lit ''name'', name), (lit ''slug'', []), (lit ''id'', []), (lit ''release'', []),
      (lit ''runtime'', []), (lit ''rewatched'', []), (lit ''rating'', []), (lit ''liked'', []),
      (lit ''reviewed'', []), (lit ''date'', [])]"

section \<open>Evaluation rules\<close>

lemma bnd_Inr [simp]: "bnd (Inr x) f = f x"
  by (simp add: bnd_def)

lemma bnd_Inl [simp]: "bnd (Inl e) f = Inl e"
  by (simp add: bnd_def)

lemma catch_Inr [simp]: "catch (Inr x) d = x"
  by (simp add: catch_def)

lemma catch_Inl [simp]: "catch (Inl e) d = d"
  by (simp add: catch_def)

lemma catch_only_Inr [simp]: "catch_only es (Inr x) d = Inr x"
  by (simp add: catch_only_def)

lemma catch_only_Inl [simp]:
  "catch_only es (Inl e) d = (if e \<in> set es then Inr d else Inl e)"
  by (simp add: catch_only_def)

lemma bnd_eq_Inr: "bnd m f = Inr y \<longleftrightarrow> (\<exists>x. m = Inr x \<and> f x = Inr y)"
  by (cases m) simp_all

text \<open>Congruence rules that make the simplifier evaluate the scrutinee of a case
  distinction, or the first step of a sequence, before anything else.\<close>

lemma bnd_weak_cong: "m = m' \<Longrightarrow> bnd m f = bnd m' f"
  by simp

lemmas eval_congs = bnd_weak_cong option.case_cong_weak sum.case_cong_weak list.case_cong_weak
  prod.case_cong_weak pyval.case_cong_weak

lemma floor_rat_numeral_div:
  "\<lfloor>(numeral a :: rat) / numeral b\<rfloor> = numeral a div numeral b"
  using floor_divide_of_int_eq [of "numeral a" "numeral b", where ?'a = rat] by simp

lemma ceiling_rat_numeral_div:
  "\<lceil>(numeral a :: rat) / numeral b\<rceil> = - ((- numeral a) div numeral b)"
  using floor_divide_of_int_eq [of "- numeral a" "numeral b", where ?'a = rat]
  by (simp add: ceiling_def)

text \<open>Rounding a positive rational, given its exponent and its rounded significand.\<close>

lemma to_double_pos:
  assumes "0 < q" and "floor_log2 q = k" and "max (k - 52) (- 1074) = e"
    and "round_half_even (q / 2 powi e) = m" and "of_int m * 2 powi e = r"
    and "r < 2 ^ 1024"
  shows "to_double q = VFloat r"
  using assms by (simp add: to_double_def Let_def)

lemmas float_eval = floor_log2_def round_half_even_def compute_bitlen
  power_int_minus Let_def floor_rat_numeral_div ceiling_rat_numeral_div

lemma to_double_17_4: "to_double (17/4) = VFloat (17/4)"
  by (rule to_double_pos [where k = 2 and e = "- 50" and m = 4785074604081152])
     (simp_all add: float_eval)

lemma to_double_9_2: "to_double (9/2) = VFloat (9/2)"
  by (rule to_double_pos [where k = 2 and e = "- 50" and m = 5066549580791808])
     (simp_all add: float_eval)

text \<open>The double nearest to 1.2 lies below it; its product with 1000 rounds to 1200.\<close>

lemma to_double_6_5: "to_double (6/5) = VFloat (5404319552844595 / 4503599627370496)"
  by (rule to_double_pos [where k = 0 and e = "- 52" and m = 5404319552844595])
     (simp_all add: float_eval)

lemma to_double_1200: "to_double (675539944105574375 / 562949953421312) = VFloat 1200"
  by (rule to_double_pos [where k = 10 and e = "- 42" and m = 5277655813324800])
     (simp_all add: float_eval)

lemma upt_10: "[0..<10] = [0, 1, 2, 3, 4, 5, 6, 7, 8, 9]"
  by (simp add: upt_rec)

text \<open>Below the first non-ASCII digit, U+0660, the decimal digits are the ASCII ones.\<close>

lemma is_digit_low: "c < 1632 \<Longrightarrow> is_digit c = (48 \<le> c \<and> c \<le> 57)"
  by (auto simp: is_digit_def decimal_zeros_def)

lemma digit_value_low: "48 \<le> c \<Longrightarrow> c \<le> 57 \<Longrightarrow> digit_value c = c - 48"
  by (simp add: digit_value_def decimal_zeros_def)

lemmas text_eval = lit_def strip_def strip_where_def strip_chars_def rstrip_chars_def is_space_def
  is_digit_low digit_value_low digit_runs_def digits_value_def digitpart_def sign_of_def py_int_def
  first_of_def last_of_def second_last_of_def attr_of_def subscript_of_def key_of_def

lemmas dom_eval = find_def find_all_def get_attr_def text_of_def get_text_strip_def

lemmas float_parse_eval = py_float_def lower_def float_magnitude_def float_number_def
  float_exponent_def float_times_1000_def int_of_float_def int_halved_def
  to_double_17_4 to_double_9_2 to_double_6_5 to_double_1200 power_int_minus

lemmas film_eval = film_card_of_def film_page_fields_def film_title_of_def release_year_of_def
  director_of_def cast_of_def average_rating_of_def owner_rating_of_def genres_of_def
  runtime_of_def details_links_of_def languages_of_def description_of_def
  stats_fields_def stat_of_def parse_count_def histogram_fields_def
  parse_fans_def fans_token_def fans_number_def opt_K_def val2stars_def rating_scale_def
  stars2val_def domain_def

lemmas scrape_film_eval = scrape_film_def film_eval text_eval dom_eval float_parse_eval
  star_def half_def upt_10

lemmas web_eval = web_of_def heat_page_def heat_item_def heat_stats_def heat_histogram_def
  leaf_def error_page_def list_page_def next_link_def

section \<open>Properties of the rating scale\<close>

text \<open>
  C8: for each of the 10 valid half-star increments, converting the value to its glyph
  string and back reproduces the value.
\<close>

theorem C8_rating_round_trip:
  "v \<in> set valid_increments \<Longrightarrow>
     (\<exists>s. val2stars v nf = Inr s \<and> stars2val s nf = VFloat v)"
  by (auto simp: valid_increments_def val2stars_def stars2val_def rating_scale_def
      star_def half_def)

theorem C8_rating_round_trip_witness:
  "(3/2) \<in> set valid_increments \<and>
     (\<exists>s. val2stars (3/2) VNaN = Inr s \<and> stars2val s VNaN = VFloat (3/2))"
  using C8_rating_round_trip [of "3/2" VNaN] by (simp add: valid_increments_def)

section \<open>The example film\<close>

lemma heat_scraped: "scrape_film heat_web heat_item VNaN = Inr heat_record"
  by (simp add: scrape_film_eval heat_web_def web_eval heat_record_def cong: eval_congs)

lemma top_scraped: "scrape_film top_web heat_item VNaN = Inr heat_record"
  by (simp add: scrape_film_eval top_web_def web_eval heat_record_def cong: eval_congs)

lemma no_director_raises: "scrape_film no_director_web heat_item VNaN = Inl AttributeError"
  by (simp add: scrape_film_eval no_director_web_def heat_page_no_director_def web_eval
        cong: eval_congs)

lemma stats_down_raises: "scrape_film stats_down_web heat_item VNaN = Inl TypeError"
  by (simp add: scrape_film_eval stats_down_web_def web_eval cong: eval_congs)

lemma histogram_down_degrades:
  "scrape_film histogram_down_web heat_item VNaN = Inr degraded_record"
  by (simp add: scrape_film_eval histogram_down_web_def web_eval degraded_record_def
        heat_record_def cong: eval_congs)

section \<open>Failures of single fields and of secondary fetches\<close>

lemma py_int_error: "py_int s = Inl e \<Longrightarrow> e = ValueError"
  by (auto simp: py_int_def split: prod.splits option.splits list.splits)

lemma release_year_of_returns: "\<exists>y. release_year_of film_soup = Inr y"
proof -
  let ?years = "find_all film_soup ''div.releaseyear''"
  let ?body = "if length ?years > 1 then
                bnd (attr_of (find (?years ! 1) ''a'')) (\<lambda>a.
                  let year_text = strip (text_of a) in
                  if year_text \<noteq> [] then py_int year_text else Inr 0)
              else Inr 0"
  have "e \<in> set [AttributeError, IndexError, ValueError]" if "?body = Inl e" for e
    using that
    by (auto simp: attr_of_def bnd_def Let_def split: if_splits option.splits dest: py_int_error)
  then show ?thesis
    by (cases ?body) (auto simp: release_year_of_def Let_def)
qed

text \<open>
  C1, on every failing input: a film whose page has a title but no \<open>twitter:data1\<close>
  meta element. The director lookup of lines 148-151 is a method call on \<open>None\<close>
  outside any \<open>try\<close>: \<open>scrape_film\<close> raises AttributeError and the loop of
  \<open>scrape_page\<close> leaves the film out, whatever the other fields are. On the example,
  the same film with the meta element gives the full record.
\<close>

theorem C1_missing_director_aborts_record:
  assumes "film_card_of film_html = Inr film_card"
    and "get (domain @ film_card) = Inr filmget"
    and "film_title_of (content filmget) = Inr title"
    and "find (content filmget) ''meta[name=twitter:data1]'' = None"
  shows "scrape_film get film_html not_found = Inl AttributeError
         \<and> page_films_of get not_found concat_flag og_list_url [film_html] = []"
proof -
  obtain y where "release_year_of (content filmget) = Inr y"
    using release_year_of_returns by blast
  with assms have "film_page_fields film_html (content filmget) not_found = Inl AttributeError"
    by (simp add: film_page_fields_def director_of_def attr_of_def)
  with assms have "scrape_film get film_html not_found = Inl AttributeError"
    by (simp add: scrape_film_def Let_def)
  then show ?thesis by simp
qed

theorem C1_missing_director_aborts_record_witness:
  "film_card_of heat_item = Inr (lit ''film/heat/'')
   \<and> no_director_web (domain @ lit ''film/heat/'')
       = Inr \<lparr>status_code = 200, content = heat_page_no_director\<rparr>
   \<and> film_title_of heat_page_no_director = Inr (lit ''Heat'')
   \<and> find heat_page_no_director ''meta[name=twitter:data1]'' = None
   \<and> scrape_film no_director_web heat_item VNaN = Inl AttributeError
   \<and> page_films_of no_director_web VNaN False top_url [heat_item] = []
   \<and> scrape_film heat_web heat_item VNaN = Inr heat_record"
proof -
  have card: "film_card_of heat_item = Inr (lit ''film/heat/'')"
    by (simp add: film_card_of_def heat_item_def leaf_def dom_eval attr_of_def subscript_of_def
        lit_def)
  have page: "no_director_web (domain @ lit ''film/heat/'')
                = Inr \<lparr>status_code = 200, content = heat_page_no_director\<rparr>"
    by (simp add: no_director_web_def web_of_def domain_def lit_def)
  have title: "film_title_of heat_page_no_director = Inr (lit ''Heat'')"
    by (simp add: film_title_of_def heat_page_no_director_def leaf_def dom_eval attr_of_def)
  have meta: "find heat_page_no_director ''meta[name=twitter:data1]'' = None"
    by (simp add: heat_page_no_director_def dom_eval)
  show ?thesis
    using C1_missing_director_aborts_record
      [of heat_item "lit ''film/heat/''" no_director_web
          "\<lparr>status_code = 200, content = heat_page_no_director\<rparr>" "lit ''Heat''" VNaN False
          top_url]
      card page title meta heat_scraped
    by simp
qed

text \<open>
  C4, on every failing input: a film whose stats fragment answers with a status other
  than 200 and a body without the watched link. The status is not looked at, the
  lookup of line 241 subscripts \<open>None\<close> outside any \<open>try\<close>: \<open>scrape_film\<close> raises
  TypeError and \<open>scrape_page\<close> leaves the film out. The sibling path does degrade: on
  the example, when the histogram fragment answers 404, the record is produced with
  0 fans, 0 in every bucket and 0 total ratings.
\<close>

theorem C4_stats_failure_drops_record:
  assumes "film_card_of film_html = Inr film_card"
    and "get (domain @ film_card) = Inr filmget"
    and "film_page_fields film_html (content filmget) not_found = Inr film_dict"
    and "second_last_of (split_on 47 (domain @ film_card)) = Inr movie"
    and "get (lit ''https://letterboxd.com/csi/film/'' @ movie @ lit ''/stats/'') = Inr r"
    and "status_code r \<noteq> 200"
    and "find (content r) ''a.has-icon.icon-watched.icon-16.tooltip'' = None"
  shows "scrape_film get film_html not_found = Inl TypeError
         \<and> page_films_of get not_found concat_flag og_list_url [film_html] = []"
proof -
  from assms(7) have "stats_fields (content r) film_dict = Inl TypeError"
    by (simp add: stats_fields_def stat_of_def subscript_of_def)
  with assms have "scrape_film get film_html not_found = Inl TypeError"
    by (simp add: scrape_film_def Let_def)
  then show ?thesis by simp
qed

theorem C4_stats_failure_drops_record_witness:
  "film_card_of heat_item = Inr (lit ''film/heat/'')
   \<and> stats_down_web (domain @ lit ''film/heat/'') = Inr \<lparr>status_code = 200, content = heat_page\<rparr>
   \<and> film_page_fields heat_item heat_page VNaN = Inr (take 13 heat_record)
   \<and> second_last_of (split_on 47 (domain @ lit ''film/heat/'')) = Inr (lit ''heat'')
   \<and> stats_down_web (lit ''https://letterboxd.com/csi/film/'' @ lit ''heat'' @ lit ''/stats/'')
       = Inr \<lparr>status_code = 404, content = error_page\<rparr>
   \<and> find error_page ''a.has-icon.icon-watched.icon-16.tooltip'' = None
   \<and> scrape_film stats_down_web heat_item VNaN = Inl TypeError
   \<and> page_films_of stats_down_web VNaN False top_url [heat_item] = []
   \<and> scrape_film histogram_down_web heat_item VNaN = Inr degraded_record"
proof -
  have card: "film_card_of heat_item = Inr (lit ''film/heat/'')"
    by (simp add: film_card_of_def heat_item_def leaf_def dom_eval attr_of_def subscript_of_def
        lit_def)
  have page: "stats_down_web (domain @ lit ''film/heat/'')
                = Inr \<lparr>status_code = 200, content = heat_page\<rparr>"
    by (simp add: stats_down_web_def web_of_def domain_def lit_def)
  have fields: "film_page_fields heat_item heat_page VNaN = Inr (take 13 heat_record)"
    by (simp add: film_eval heat_page_def heat_item_def leaf_def heat_record_def text_eval dom_eval
        float_parse_eval cong: eval_congs)
  have movie: "second_last_of (split_on 47 (domain @ lit ''film/heat/'')) = Inr (lit ''heat'')"
    by (simp add: second_last_of_def domain_def lit_def)
  have stats: "stats_down_web (lit ''https://letterboxd.com/csi/film/'' @ lit ''heat'' @ lit ''/stats/'')
                 = Inr \<lparr>status_code = 404, content = error_page\<rparr>"
    by (simp add: stats_down_web_def web_of_def lit_def)
  have link: "find error_page ''a.has-icon.icon-watched.icon-16.tooltip'' = None"
    by (simp add: error_page_def dom_eval)
  show ?thesis
    using C4_stats_failure_drops_record
      [of heat_item "lit ''film/heat/''" stats_down_web
          "\<lparr>status_code = 200, content = heat_page\<rparr>" VNaN "take 13 heat_record" "lit ''heat''"
          "\<lparr>status_code = 404, content = error_page\<rparr>" False top_url]
      card page fields movie stats link histogram_down_degrades
    by simp
qed


section \<open>The page-following loop\<close>

lemma follow_pages_returns_chain_ends:
  assumes "follow_pages get u e l q c acc = Some r"
  shows "\<exists>n. chain_ends n get u e l q c"
proof (rule follow_pages.raw_induct
    [where P = "\<lambda>get u e l q c acc r. \<exists>n. chain_ends n get u e l q c", OF _ assms])
  fix fp get u e l q c acc r
  assume IH: "\<And>g u e l q c acc r. fp g u e l q c acc = Some r
                \<Longrightarrow> \<exists>n. chain_ends n g u e l q c"
    and step: "(case scrape_page get u u e l q c of
                  Inl e \<Rightarrow> Some (Inl e)
                | Inr (page_films, None) \<Rightarrow> Some (Inl AttributeError)
                | Inr (page_films, Some ps) \<Rightarrow>
                    (case find ps ''a.next'' of
                       None \<Rightarrow> Some (Inr (acc @ page_films))
                     | Some next_button \<Rightarrow>
                         (case get_attr next_button ''href'' of
                            None \<Rightarrow> Some (Inl KeyError)
                          | Some href \<Rightarrow> fp get (domain @ href) e l q c (acc @ page_films))))
               = Some r"
  show "\<exists>n. chain_ends n get u e l q c"
  proof (cases "scrape_page get u u e l q c")
    case (Inl err)
    then have "chain_ends (Suc 0) get u e l q c" by simp
    then show ?thesis by blast
  next
    case (Inr res)
    obtain page_films page_soup where res: "res = (page_films, page_soup)"
      by (cases res)
    show ?thesis
    proof (cases page_soup)
      case None
      with Inr res have "chain_ends (Suc 0) get u e l q c" by simp
      then show ?thesis by blast
    next
      case (Some ps)
      show ?thesis
      proof (cases "find ps ''a.next''")
        case None
        with Inr res Some have "chain_ends (Suc 0) get u e l q c" by simp
        then show ?thesis by blast
      next
        case nb: (Some next_button)
        show ?thesis
        proof (cases "get_attr next_button ''href''")
          case None
          with Inr res Some nb have "chain_ends (Suc 0) get u e l q c" by simp
          then show ?thesis by blast
        next
          case href: (Some href)
          from step Inr res Some nb href
          have "fp get (domain @ href) e l q c (acc @ page_films) = Some r" by simp
          then obtain n where "chain_ends n get (domain @ href) e l q c"
            using IH by blast
          with Inr res Some nb href have "chain_ends (Suc n) get u e l q c" by simp
          then show ?thesis by blast
        qed
      qed
    qed
  qed
qed

lemma chain_ends_follow_pages_returns:
  "chain_ends n get u e l q c \<Longrightarrow> \<exists>r. follow_pages get u e l q c acc = Some r"
proof (induction n arbitrary: u acc)
  case 0
  then show ?case by simp
next
  case (Suc n)
  show ?case
  proof (cases "scrape_page get u u e l q c")
    case (Inl err)
    then show ?thesis by (subst follow_pages.simps) simp
  next
    case (Inr res)
    obtain page_films page_soup where res: "res = (page_films, page_soup)"
      by (cases res)
    show ?thesis
    proof (cases page_soup)
      case None
      with Inr res show ?thesis by (subst follow_pages.simps) simp
    next
      case (Some ps)
      show ?thesis
      proof (cases "find ps ''a.next''")
        case None
        with Inr res Some show ?thesis by (subst follow_pages.simps) simp
      next
        case nb: (Some next_button)
        show ?thesis
        proof (cases "get_attr next_button ''href''")
          case None
          with Inr res Some nb show ?thesis by (subst follow_pages.simps) simp
        next
          case href: (Some href)
          with Suc.prems Inr res Some nb
          have "chain_ends n get (domain @ href) e l q c" by simp
          then obtain r where
            "follow_pages get (domain @ href) e l q c (acc @ page_films) = Some r"
            using Suc.IH by blast
          with Inr res Some nb href show ?thesis by (subst follow_pages.simps) simp
        qed
      qed
    qed
  qed
qed

lemma loop_page_2:
  "scrape_page loop_web (lit ''https://letterboxd.com/user/list/loop/page/2/'')
     (lit ''https://letterboxd.com/user/list/loop/page/2/'') e l q c =
   Inr ([], Some (Node [] [] [] (next_link (lit ''user/list/loop/page/3/''))))"
  by (simp add: scrape_page_def loop_web_def web_eval dom_eval lit_def cong: eval_congs)

lemma loop_page_3:
  "scrape_page loop_web (lit ''https://letterboxd.com/user/list/loop/page/3/'')
     (lit ''https://letterboxd.com/user/list/loop/page/3/'') e l q c =
   Inr ([], Some (Node [] [] [] (next_link (lit ''user/list/loop/page/2/''))))"
  by (simp add: scrape_page_def loop_web_def web_eval dom_eval lit_def cong: eval_congs)

lemma loop_page_1:
  "scrape_page loop_web (lit ''https://letterboxd.com/user/list/loop/'')
     (lit ''https://letterboxd.com/user/list/loop/'') e l q c =
   Inr ([], Some (Node [] [] [] (next_link (lit ''user/list/loop/page/2/''))))"
  by (simp add: scrape_page_def loop_web_def web_eval dom_eval lit_def cong: eval_congs)

lemma next_link_href:
  "find (Node [] [] [] (next_link h)) ''a.next'' = Some (leaf [(''href'', h)] (lit ''Next''))"
  "get_attr (leaf [(''href'', h)] t) ''href'' = Some h"
  by (simp_all add: next_link_def leaf_def dom_eval)

lemma loop_urls:
  "domain @ lit ''user/list/loop/page/2/'' = lit ''https://letterboxd.com/user/list/loop/page/2/''"
  "domain @ lit ''user/list/loop/page/3/'' = lit ''https://letterboxd.com/user/list/loop/page/3/''"
  by (simp_all add: domain_def lit_def)

lemma loop_never_ends:
  "\<not> chain_ends n loop_web (lit ''https://letterboxd.com/user/list/loop/page/2/'') e l q c
   \<and> \<not> chain_ends n loop_web (lit ''https://letterboxd.com/user/list/loop/page/3/'') e l q c"
proof (induction n)
  case 0
  show ?case by simp
next
  case (Suc n)
  then show ?case
    by (simp add: loop_page_2 loop_page_3 next_link_href loop_urls)
qed

lemma loop_start_never_ends:
  "\<not> chain_ends n loop_web (lit ''https://letterboxd.com/user/list/loop/'') e l q c"
proof (cases n)
  case 0
  then show ?thesis by simp
next
  case (Suc m)
  then show ?thesis
    using loop_never_ends [of m e l q c]
    by (simp add: loop_page_1 next_link_href loop_urls)
qed

lemma loop_diverges:
  "follow_pages loop_web (lit ''https://letterboxd.com/user/list/loop/'') e l q c acc = None"
proof (cases "follow_pages loop_web (lit ''https://letterboxd.com/user/list/loop/'') e l q c acc")
  case None
  then show ?thesis .
next
  case (Some r)
  then show ?thesis
    using follow_pages_returns_chain_ends [OF Some] loop_start_never_ends by blast
qed

lemma list_not_diary: "lit ''list'' \<noteq> lit ''diary''"
  by (simp add: lit_def)

text \<open>
  C3, as stated, fails: on the list whose page 3 links back to page 2, the full crawl
  of \<open>scrape_list\<close> never returns.
\<close>

theorem C3_counterexample:
  "scrape_list loop_web (lit ''https://letterboxd.com/user/list/loop/'') AllPages (lit ''.csv'')
     (lit ''list'') False False = None"
  by (simp add: scrape_list_def loop_diverges list_not_diary)

text \<open>
  C3, amended: the page-following loop of a full crawl returns exactly when the chain
  of \<open>next\<close> links from the start URL reaches, within finitely many pages, a page
  that has no \<open>next\<close> link or raises an exception. A \<open>next\<close> link that repeats a
  visited URL is followed like any other.
\<close>

theorem C3_full_crawl_terminates_iff_chain_ends:
  "(\<exists>r. follow_pages get list_url output_file_extension list_type quiet concat_flag list_films
          = Some r)
   \<longleftrightarrow> (\<exists>n. chain_ends n get list_url output_file_extension list_type quiet concat_flag)"
  using follow_pages_returns_chain_ends chain_ends_follow_pages_returns by blast

lemma three_pages:
  "scrape_page three_pages_web (lit ''https://letterboxd.com/user/list/loop/'')
     (lit ''https://letterboxd.com/user/list/loop/'') e l q c =
   Inr ([], Some (Node [] [] [] (next_link (lit ''user/list/loop/page/2/''))))"
  "scrape_page three_pages_web (lit ''https://letterboxd.com/user/list/loop/page/2/'')
     (lit ''https://letterboxd.com/user/list/loop/page/2/'') e l q c =
   Inr ([], Some (Node [] [] [] (next_link (lit ''user/list/loop/page/3/''))))"
  "scrape_page three_pages_web (lit ''https://letterboxd.com/user/list/loop/page/3/'')
     (lit ''https://letterboxd.com/user/list/loop/page/3/'') e l q c =
   Inr ([], Some (Node [] [] [] []))"
  by (simp_all add: scrape_page_def three_pages_web_def web_eval dom_eval lit_def
        cong: eval_congs)

lemma find_nothing: "find (Node [] [] [] []) sel = None"
  by (simp add: find_def find_all_def)

theorem C3_full_crawl_terminates_witness:
  "chain_ends 3 three_pages_web (lit ''https://letterboxd.com/user/list/loop/'') (lit ''.csv'')
     (lit ''list'') False False
   \<and> (\<exists>r. follow_pages three_pages_web (lit ''https://letterboxd.com/user/list/loop/'')
              (lit ''.csv'') (lit ''list'') False False [] = Some r)"
proof -
  have ends: "chain_ends 3 three_pages_web (lit ''https://letterboxd.com/user/list/loop/'')
                (lit ''.csv'') (lit ''list'') False False"
    by (simp add: numeral_3_eq_3 three_pages next_link_href loop_urls find_nothing)
  then show ?thesis
    using C3_full_crawl_terminates_iff_chain_ends
      [of three_pages_web "lit ''https://letterboxd.com/user/list/loop/''" "lit ''.csv''"
          "lit ''list''" False False "[]"]
    by blast
qed

section \<open>Compact numbers\<close>











section \<open>The diary\<close>

lemmas diary_eval = scrape_diary_def pages_to_scrape_def diary_page_entries_def entry_selectors_def
  diary_entry_of_def diary_rating_of_def stripped_text_or_empty_def
  polite_sleep_def global_name_def module_globals_def no_entries_record_def str_int_def
  diary_web_def empty_diary_web_def diary_url_def diary_page_def diary_entry_def

lemma diary_two_pages: "scrape_diary diary_web diary_url (Pages [1, 2]) (lit ''.csv'') False False = Inl NameError"
  by (simp add: diary_eval web_eval text_eval dom_eval float_parse_eval cong: eval_congs)

lemma empty_diary: "scrape_diary empty_diary_web diary_url (Pages []) (lit ''.csv'') False False
            = Inr [no_entries_record]"
  by (simp add: diary_eval web_eval text_eval dom_eval float_parse_eval cong: eval_congs)

lemma diary_default_page: "scrape_diary diary_web diary_url (Pages []) (lit ''.csv'') False False = Inl NameError"
  by (simp add: diary_eval web_eval text_eval dom_eval float_parse_eval cong: eval_congs)

lemma note_key: "lit ''note'' \<notin> set diary_keys \<and> map fst no_entries_record = [lit ''note'']"
  by (simp add: diary_keys_def no_entries_record_def lit_def)

lemma polite_sleep_raises: "polite_sleep = Inl NameError"
  by (simp add: polite_sleep_def global_name_def module_globals_def)

text \<open>
  C6, on every failing input: whenever the first page of a diary crawl is fetched with
  status 200 and holds at least one entry element, the delay of line 415 is reached
  and raises NameError, because \<open>time\<close> is not imported; nothing is returned and no
  further page is fetched.
\<close>

theorem C6_politeness_delay_raises:
  assumes "pages_to_scrape page_options = page # pages"
    and "get (rstrip_chars (lit ''/'') base_url @ lit ''/page/'' @ page @ lit ''/'') = Inr resp"
    and "status_code resp = 200"
    and "diary_page_entries (content resp) \<noteq> []"
  shows "scrape_diary get base_url page_options output_file_extension quiet concat_flag
           = Inl NameError"
  using assms
  by (simp add: scrape_diary_def global_name_def module_globals_def polite_sleep_raises Let_def)

theorem C6_politeness_delay_raises_witness:
  "pages_to_scrape (Pages [1, 2]) = [lit ''1'', lit ''2'']
   \<and> diary_web (lit ''https://letterboxd.com/user/films/diary/page/1/'')
       = Inr \<lparr>status_code = 200, content = diary_page\<rparr>
   \<and> diary_page_entries diary_page \<noteq> []
   \<and> scrape_diary diary_web diary_url (Pages [1, 2]) (lit ''.csv'') False False = Inl NameError"
proof -
  have pages: "pages_to_scrape (Pages [1, 2]) = lit ''1'' # [lit ''2'']"
    by (simp add: pages_to_scrape_def str_int_def lit_def)
  have url: "rstrip_chars (lit ''/'') diary_url @ lit ''/page/'' @ lit ''1'' @ lit ''/''
               = lit ''https://letterboxd.com/user/films/diary/page/1/''"
    by (simp add: rstrip_chars_def diary_url_def lit_def)
  have page: "diary_web (lit ''https://letterboxd.com/user/films/diary/page/1/'')
                = Inr \<lparr>status_code = 200, content = diary_page\<rparr>"
    by (simp add: diary_web_def web_of_def lit_def)
  have entries: "diary_page_entries diary_page \<noteq> []"
    by (simp add: diary_page_entries_def entry_selectors_def diary_page_def dom_eval)
  show ?thesis
    using C6_politeness_delay_raises
      [of "Pages [1, 2]" "lit ''1''" "[lit ''2'']" diary_web diary_url
          "\<lparr>status_code = 200, content = diary_page\<rparr>" "lit ''.csv''" False False]
      pages url page entries
    by simp
qed

text \<open>
  C10, at the failing input: the diary whose page 1 holds one entry. \<open>scrape_diary\<close>
  raises NameError at the delay of line 415 (the defect of C6) and returns no list.
  When no entry is found on the requested page, it does return the one record
  \<open>{"note": "no diary entries found"}\<close>, whose key is not a key of a diary record.
\<close>

theorem C10_diary_with_entries_raises:
  "scrape_diary diary_web diary_url (Pages []) (lit ''.csv'') False False = Inl NameError
   \<and> scrape_diary empty_diary_web diary_url (Pages []) (lit ''.csv'') False False
       = Inr [no_entries_record]
   \<and> lit ''note'' \<notin> set diary_keys
   \<and> map fst no_entries_record = [lit ''note'']"
  using diary_default_page empty_diary note_key by simp

section \<open>Pages that cannot be retrieved\<close>

lemma top_urls:
  "top_url @ lit ''page/'' @ str_int 2 @ lit ''/'' = lit ''https://letterboxd.com/user/list/top/page/2/''"
  "top_url @ lit ''page/'' @ str_int 5 @ lit ''/'' = lit ''https://letterboxd.com/user/list/top/page/5/''"
  "domain @ lit ''/user/list/top/page/2/'' = lit ''https://letterboxd.com//user/list/top/page/2/''"
  by (simp_all add: top_url_def domain_def lit_def str_int_def)

lemma top_fetch:
  "top_web (lit ''https://letterboxd.com/user/list/top/page/2/'')
     = Inr \<lparr>status_code = 200, content = list_page []\<rparr>"
  "top_web (lit ''https://letterboxd.com/user/list/top/page/5/'')
     = Inr \<lparr>status_code = 404, content = error_page\<rparr>"
  "top_web (lit ''https://letterboxd.com//user/list/top/page/2/'')
     = Inr \<lparr>status_code = 404, content = error_page\<rparr>"
  "top_web top_url
     = Inr \<lparr>status_code = 200, content = list_page (next_link (lit ''/user/list/top/page/2/''))\<rparr>"
  by (simp_all add: top_web_def web_of_def top_url_def lit_def)

lemma list_page_films:
  "find (list_page links) ''ul.poster-list'' = Some (Node [] [] [] [(''li'', [heat_item])])"
  "find_all (Node [] [] [] [(''li'', [heat_item])]) ''li'' = [heat_item]"
  by (simp_all add: list_page_def dom_eval)

lemma top_page_2:
  "scrape_page top_web (lit ''https://letterboxd.com/user/list/top/page/2/'') top_url
     (lit ''.csv'') l q False
   = Inr ([heat_record], Some (list_page []))"
  by (simp add: scrape_page_def top_fetch list_page_films top_scraped cong: eval_congs)

lemma top_page_5:
  "scrape_page top_web (lit ''https://letterboxd.com/user/list/top/page/5/'') top_url
     (lit ''.csv'') l q False
   = Inr ([], None)"
  by (simp add: scrape_page_def top_fetch cong: eval_congs)

lemma top_page_1:
  "scrape_page top_web top_url top_url (lit ''.csv'') l q False
   = Inr ([heat_record], Some (list_page (next_link (lit ''/user/list/top/page/2/''))))"
  by (simp add: scrape_page_def top_fetch list_page_films top_scraped cong: eval_congs)

lemma top_page_next:
  "scrape_page top_web (lit ''https://letterboxd.com//user/list/top/page/2/'')
     (lit ''https://letterboxd.com//user/list/top/page/2/'') (lit ''.csv'') l q False
   = Inr ([], None)"
  by (simp add: scrape_page_def top_fetch cong: eval_congs)

lemma list_page_next:
  "find (list_page (next_link h)) ''a.next'' = Some (leaf [(''href'', h)] (lit ''Next''))"
  by (simp add: list_page_def next_link_def leaf_def dom_eval)

lemma top_selected:
  "selected_pages top_web top_url (lit ''.csv'') l q False [2, 5] = [heat_record]"
  by (simp add: top_urls top_page_2 top_page_5)

lemma top_full_crawl:
  "follow_pages top_web top_url (lit ''.csv'') l q False [] = Some (Inl AttributeError)"
  by (subst follow_pages.simps, simp add: top_page_1 list_page_next next_link_href top_urls,
      subst follow_pages.simps, simp add: top_page_next)

lemma write_heat_record: "write_csv [heat_record] = Inr ()"
  by (simp add: write_csv_def heat_record_def lit_def star_def half_def)

text \<open>
  C5, at the failing input: a full crawl whose first page holds the film and links to
  a second page that answers 404. \<open>scrape_page\<close> hands back \<open>None\<close> for the document
  of the failed page, the loop calls \<open>page_soup.find\<close> on it, and \<open>scrape_list\<close>
  raises AttributeError to its caller; the film of the first page is lost with it.
  The explicit selection does what the claim says: with pages 2 and 5 selected and
  page 5 answering 404, the crawl returns the film of page 2 and raises nothing.
\<close>

theorem C5_failed_page_in_full_crawl_raises:
  "scrape_list top_web top_url (Pages []) (lit ''.csv'') (lit ''list'') False False
     = Some (Inl AttributeError)
   \<and> scrape_list top_web top_url (Pages [2, 5]) (lit ''.csv'') (lit ''list'') False False
     = Some (Inr [heat_record])"
  by (simp add: scrape_list_def list_not_diary top_full_crawl top_urls top_page_2 top_page_5
        write_heat_record)

section \<open>The diary export\<close>

lemma row_of_keys: "map fst (row_of repr_of entry) = fieldnames"
  by (simp add: row_of_def fieldnames_def Let_def)

lemma dicts_only_length:
  "list_all is_dict xs \<Longrightarrow>
     length (concat (map (\<lambda>e. case e of JDict d \<Rightarrow> [d] | _ \<Rightarrow> []) xs)) = length xs"
proof (induction xs)
  case Nil
  show ?case by simp
next
  case (Cons x xs)
  then show ?case by (cases x) simp_all
qed

lemma rows_keys:
  "diary_rows repr_of entries = Some rows \<Longrightarrow> list_all (\<lambda>row. map fst row = fieldnames) rows"
  by (auto simp: diary_rows_def row_of_keys list_all_iff split: if_splits)

lemma keyed_mapping_rows:
  assumes "spec_keyed_mapping (JDict kd)" and "kd \<noteq> []"
    and "map_of kd (lit ''entries'') = None"
  shows "\<exists>rows. diary_rows repr_of (JDict kd) = Some rows \<and> length rows = length kd"
proof -
  from assms(1) have all_dicts: "list_all is_dict (map snd kd)"
    by (simp add: spec_keyed_mapping_def)
  with assms(3) have "normalize_entries (JDict kd) = map snd kd"
    by (simp add: normalize_entries_def)
  with assms(2) all_dicts show ?thesis
    using dicts_only_length [of "map snd kd"] by (simp add: diary_rows_def)
qed

lemma sequence_is_list:
  "(case x of JList subs \<Rightarrow> list_all is_dict subs | _ \<Rightarrow> False) \<Longrightarrow> is_list x \<and> \<not> is_dict x"
  by (cases x) simp_all

lemma sequences_flattened:
  "list_all (\<lambda>x. case x of JList subs \<Rightarrow> list_all is_dict subs | _ \<Rightarrow> False) vs \<Longrightarrow>
     list_all is_dict (concat (map (\<lambda>v. case v of JList xs \<Rightarrow> xs | _ \<Rightarrow> []) vs))"
proof (induction vs)
  case Nil
  show ?case by simp
next
  case (Cons v vs)
  then show ?case by (cases v) simp_all
qed

lemma mapping_of_sequences_rows:
  assumes "spec_mapping_of_sequences (JDict sd)" and "sd \<noteq> []"
  shows "\<exists>rows. diary_rows repr_of (JDict sd) = Some rows
           \<and> length rows
               = length (concat (map (\<lambda>v. case v of JList xs \<Rightarrow> xs | _ \<Rightarrow> []) (map snd sd)))"
proof -
  let ?seq = "\<lambda>x. case x of JList subs \<Rightarrow> list_all is_dict subs | _ \<Rightarrow> False"
  let ?items = "concat (map (\<lambda>v. case v of JList xs \<Rightarrow> xs | _ \<Rightarrow> []) (map snd sd))"
  from assms(1) have seqs: "list_all ?seq (map snd sd)"
    by (simp add: spec_mapping_of_sequences_def)
  then have lists: "\<forall>x \<in> set (map snd sd). is_list x \<and> \<not> is_dict x"
    using sequence_is_list by (auto simp: list_all_iff)
  obtain k v rest where sd: "sd = (k, v) # rest"
    using assms(2) by (cases sd) auto
  with lists have v: "is_list v" "\<not> is_dict v" by auto
  have no_entries_dict: "\<And>es. map_of sd (lit ''entries'') \<noteq> Some (JDict es)"
  proof
    fix es
    assume "map_of sd (lit ''entries'') = Some (JDict es)"
    then have "JDict es \<in> set (map snd sd)"
      by (metis map_of_SomeD set_zip_rightD zip_map_fst_snd)
    with lists show False by auto
  qed
  have not_all: "\<not> list_all is_dict (map snd sd)"
    using sd v by simp
  have all_lists: "filter is_list (map snd sd) = map snd sd"
    using lists by (simp add: filter_id_conv)
  have nonempty: "map snd sd \<noteq> []"
    using assms(2) by simp
  have "normalize_entries (JDict sd) = ?items"
    using no_entries_dict not_all all_lists nonempty
    by (auto simp: normalize_entries_def Let_def split: option.splits jval.splits)
  then show ?thesis
    using assms(2) dicts_only_length [OF sequences_flattened [OF seqs]]
    by (simp add: diary_rows_def)
qed

lemma bare_list_rows:
  assumes "xs \<noteq> []" and "list_all is_dict xs"
  shows "\<exists>rows. diary_rows repr_of (JList xs) = Some rows \<and> length rows = length xs"
  using assms dicts_only_length [of xs] by (simp add: diary_rows_def normalize_entries_def)

lemma scalars_no_rows:
  assumes "fd \<noteq> []" and "list_all (\<lambda>x. \<not> is_dict x \<and> \<not> is_list x) (map snd fd)"
  shows "diary_rows repr_of (JDict fd) = Some []"
proof -
  from assms(2) have scalars: "\<forall>x \<in> set (map snd fd). \<not> is_dict x \<and> \<not> is_list x"
    by (simp add: list_all_iff)
  obtain k v rest where fd: "fd = (k, v) # rest"
    using assms(1) by (cases fd) auto
  with scalars have "\<not> is_dict v" by auto
  with fd have not_all: "\<not> list_all is_dict (map snd fd)" by simp
  have no_lists: "filter is_list (map snd fd) = []"
    using scalars by (simp add: filter_empty_conv)
  have no_entries_dict: "\<And>es. map_of fd (lit ''entries'') \<noteq> Some (JDict es)"
  proof
    fix es
    assume "map_of fd (lit ''entries'') = Some (JDict es)"
    then have "JDict es \<in> set (map snd fd)"
      by (metis map_of_SomeD set_zip_rightD zip_map_fst_snd)
    with scalars show False by auto
  qed
  have "normalize_entries (JDict fd) = []"
    using no_entries_dict not_all no_lists
    by (auto simp: normalize_entries_def Let_def split: option.splits jval.splits)
  with assms(1) show ?thesis
    by (simp add: diary_rows_def)
qed

lemma scalar_no_rows:
  "\<not> is_dict v \<Longrightarrow> \<not> is_list v \<Longrightarrow>
     diary_rows repr_of v = None \<or> diary_rows repr_of v = Some []"
  by (cases v) (simp_all add: diary_rows_def normalize_entries_def)

lemma bare_list_unrecognized: "\<not> spec_recognized_shape bare_list"
  by (simp add: spec_recognized_shape_def spec_keyed_mapping_def spec_flat_mapping_def
      spec_mapping_of_sequences_def bare_list_def)

lemma bare_list_export: "diary_rows question_mark bare_list = Some [blank_named (lit ''Heat'')]"
  by (simp add: diary_rows_def bare_list_def blank_named_def normalize_entries_def row_of_def
      sub_dict_def dict_get_def date_str_of_def or_empty_def scalar_of_def py_str_def
      question_mark_def lit_def Let_def cong: eval_congs)

lemma flat_record_recognized: "spec_recognized_shape flat_record"
  by (simp add: spec_recognized_shape_def spec_flat_mapping_def flat_record_def fieldnames_def
      lit_def)

lemma flat_record_export: "diary_rows question_mark flat_record = Some []"
  by (simp add: diary_rows_def flat_record_def normalize_entries_def lit_def Let_def
      cong: eval_congs)

text \<open>
  C9, as stated, fails in both directions. A bare list of one sub-record is none of
  the three shapes of the spec, which are all mappings, and yet it yields a row
  (lines 108-109); a flat mapping keyed by canonical field names is the second shape
  of the spec and yields no row at all, since no branch of lines 94-111 takes a
  mapping as one record.
\<close>

theorem C9_counterexample:
  "\<not> spec_recognized_shape bare_list
   \<and> diary_rows question_mark bare_list = Some [blank_named (lit ''Heat'')]
   \<and> spec_recognized_shape flat_record
   \<and> diary_rows question_mark flat_record = Some []"
  by (simp add: bare_list_unrecognized bare_list_export flat_record_recognized
      flat_record_export)

text \<open>
  C9, amended: the export never raises, and every row it writes has exactly the
  canonical field names, in their order. A dictionary whose \<open>entries\<close> key holds a
  dictionary of \<open>n\<close> sub-records gives exactly \<open>n\<close> rows; a non-empty keyed mapping
  of sub-records without an \<open>entries\<close> key gives one row for each sub-record; a
  non-empty mapping whose values are sequences of sub-records gives one row for each
  element of the concatenated sequences; a non-empty bare list of sub-records gives
  one row for each element. A non-empty mapping whose values are neither mappings nor
  sequences, such as a flat mapping of scalar values, gives no row, and so does any
  input that is neither a mapping nor a sequence.
\<close>

theorem C9_diary_normalization:
  "(map_of d (lit ''entries'') = Some (JDict es) \<and> list_all is_dict (map snd es) \<longrightarrow>
      (\<exists>rows. diary_rows repr_of (JDict d) = Some rows \<and> length rows = length es
         \<and> list_all (\<lambda>row. map fst row = fieldnames) rows))
   \<and> (diary_rows repr_of entries = None
       \<or> (\<exists>rows. diary_rows repr_of entries = Some rows
            \<and> list_all (\<lambda>row. map fst row = fieldnames) rows))
   \<and> (spec_keyed_mapping (JDict kd) \<and> kd \<noteq> [] \<and> map_of kd (lit ''entries'') = None \<longrightarrow>
        (\<exists>rows. diary_rows repr_of (JDict kd) = Some rows \<and> length rows = length kd))
   \<and> (spec_mapping_of_sequences (JDict sd) \<and> sd \<noteq> [] \<longrightarrow>
        (\<exists>rows. diary_rows repr_of (JDict sd) = Some rows
           \<and> length rows
               = length (concat (map (\<lambda>v. case v of JList xs \<Rightarrow> xs | _ \<Rightarrow> [])
                                   (map snd sd)))))
   \<and> (xs \<noteq> [] \<and> list_all is_dict xs \<longrightarrow>
        (\<exists>rows. diary_rows repr_of (JList xs) = Some rows \<and> length rows = length xs))
   \<and> (fd \<noteq> [] \<and> list_all (\<lambda>x. \<not> is_dict x \<and> \<not> is_list x) (map snd fd) \<longrightarrow>
        diary_rows repr_of (JDict fd) = Some [])
   \<and> (\<not> is_dict v \<and> \<not> is_list v \<longrightarrow>
        diary_rows repr_of v = None \<or> diary_rows repr_of v = Some [])"
proof (intro conjI impI)
  assume a: "map_of d (lit ''entries'') = Some (JDict es) \<and> list_all is_dict (map snd es)"
  then have "d \<noteq> []" by auto
  moreover from a have "normalize_entries (JDict d) = map snd es"
    by (simp add: normalize_entries_def)
  ultimately show "\<exists>rows. diary_rows repr_of (JDict d) = Some rows \<and> length rows = length es
         \<and> list_all (\<lambda>row. map fst row = fieldnames) rows"
    using a dicts_only_length [of "map snd es"]
    by (simp add: diary_rows_def row_of_keys list_all_iff)
next
  show "diary_rows repr_of entries = None
       \<or> (\<exists>rows. diary_rows repr_of entries = Some rows
            \<and> list_all (\<lambda>row. map fst row = fieldnames) rows)"
    using rows_keys [of repr_of entries] by (cases "diary_rows repr_of entries") auto
next
  assume "spec_keyed_mapping (JDict kd) \<and> kd \<noteq> [] \<and> map_of kd (lit ''entries'') = None"
  then show "\<exists>rows. diary_rows repr_of (JDict kd) = Some rows \<and> length rows = length kd"
    using keyed_mapping_rows by blast
next
  assume "spec_mapping_of_sequences (JDict sd) \<and> sd \<noteq> []"
  then show "\<exists>rows. diary_rows repr_of (JDict sd) = Some rows
           \<and> length rows
               = length (concat (map (\<lambda>v. case v of JList xs \<Rightarrow> xs | _ \<Rightarrow> [])
                                   (map snd sd)))"
    using mapping_of_sequences_rows by blast
next
  assume "xs \<noteq> [] \<and> list_all is_dict xs"
  then show "\<exists>rows. diary_rows repr_of (JList xs) = Some rows \<and> length rows = length xs"
    using bare_list_rows by blast
next
  assume "fd \<noteq> [] \<and> list_all (\<lambda>x. \<not> is_dict x \<and> \<not> is_list x) (map snd fd)"
  then show "diary_rows repr_of (JDict fd) = Some []"
    using scalars_no_rows by blast
next
  assume "\<not> is_dict v \<and> \<not> is_list v"
  then show "diary_rows repr_of v = None \<or> diary_rows repr_of v = Some []"
    using scalar_no_rows by blast
qed

theorem C9_diary_normalization_witness:
  "(\<exists>rows. diary_rows question_mark two_entries = Some rows \<and> length rows = 2
      \<and> list_all (\<lambda>row. map fst row = fieldnames) rows)
   \<and> (\<exists>rows. diary_rows question_mark keyed_example = Some rows \<and> length rows = 2)
   \<and> (\<exists>rows. diary_rows question_mark sequences_example = Some rows \<and> length rows = 3)
   \<and> (\<exists>rows. diary_rows question_mark bare_list = Some rows \<and> length rows = 1)
   \<and> diary_rows question_mark flat_record = Some []
   \<and> diary_rows question_mark (JStr (lit ''diary'')) = Some []"
proof -
  let ?es = "[(lit ''a'',
                 JDict [(lit ''name'', JStr (lit ''Heat'')),
                        (lit ''actions'', JDict [(lit ''liked'', JBool True)]),
                        (lit ''date'',
                           JDict [(lit ''year'', JInt 2024), (lit ''month'', JInt 3),
                                  (lit ''day'', JInt 12)])]),
              (lit ''b'', JDict [])]"
  let ?d = "[(lit ''entries'', JDict ?es), (lit ''count'', JInt 2)]"
  let ?kd = "[(lit ''a'', JDict [(lit ''name'', JStr (lit ''Heat''))]), (lit ''b'', JDict [])]"
  let ?sd = "[(lit ''seen'', JList [JDict [(lit ''name'', JStr (lit ''Heat''))], JDict []]),
              (lit ''liked'', JList [JDict []])]"
  let ?xs = "[JDict [(lit ''name'', JStr (lit ''Heat''))]]"
  let ?fd = "[(lit ''name'', JStr (lit ''Heat'')), (lit ''slug'', JStr (lit ''heat''))]"
  have hyp: "map_of ?d (lit ''entries'') = Some (JDict ?es) \<and> list_all is_dict (map snd ?es)"
    by simp
  have keyed: "spec_keyed_mapping (JDict ?kd) \<and> ?kd \<noteq> [] \<and> map_of ?kd (lit ''entries'') = None"
    by (simp add: spec_keyed_mapping_def lit_def)
  have seqs: "spec_mapping_of_sequences (JDict ?sd) \<and> ?sd \<noteq> []"
    by (simp add: spec_mapping_of_sequences_def)
  have bare: "?xs \<noteq> [] \<and> list_all is_dict ?xs"
    by simp
  have flat: "?fd \<noteq> [] \<and> list_all (\<lambda>x. \<not> is_dict x \<and> \<not> is_list x) (map snd ?fd)"
    by simp
  have scalar: "\<not> is_dict (JStr (lit ''diary'')) \<and> \<not> is_list (JStr (lit ''diary''))"
    by simp
  have truthy: "diary_rows question_mark (JStr (lit ''diary'')) \<noteq> None"
    by (simp add: diary_rows_def lit_def)
  show ?thesis
    using C9_diary_normalization
            [of ?d ?es question_mark two_entries ?kd ?sd ?xs ?fd "JStr (lit ''diary'')"]
          hyp keyed seqs bare flat scalar truthy
    by (simp add: two_entries_def keyed_example_def sequences_example_def bare_list_def
        flat_record_def numeral_2_eq_2 numeral_3_eq_3)
qed

lemma two_entries_rows:
  "diary_rows question_mark two_entries =
     Some [[(lit ''name'', lit ''Heat''), (lit ''slug'', []), (lit ''id'', []),
            (lit ''release'', []), (lit ''runtime'', []),
            (lit ''rewatched'', []), (lit ''rating'', []), (lit ''liked'', lit ''1''),
            (lit ''reviewed'', []), (lit ''date'', lit ''2024-03-12'')],
           [(lit ''name'', []), (lit ''slug'', []), (lit ''id'', []),
            (lit ''release'', []), (lit ''runtime'', []),
            (lit ''rewatched'', []), (lit ''rating'', []), (lit ''liked'', []),
            (lit ''reviewed'', []), (lit ''date'', [])]]"
  by (simp add: diary_rows_def two_entries_def normalize_entries_def row_of_def sub_dict_def
      dict_get_def date_str_of_def to_int_def zero_padded_def or_empty_def scalar_of_def
      py_str_def question_mark_def lit_def Let_def cong: eval_congs)

section \<open>The rating histogram\<close>

lemma bucket_keys_unfold:
  "bucket_keys =
     [[half], [star], [star, half], [star, star], [star, star, half], [star, star, star],
      [star, star, star, half], [star, star, star, star], [star, star, star, star, half],
      [star, star, star, star, star]]"
  by (simp add: bucket_keys_def rating_scale_def)

lemma distinct_bucket_keys: "distinct bucket_keys"
  by (simp add: bucket_keys_unfold star_def half_def)

lemma length_bucket_keys: "length bucket_keys = 10"
  by (simp add: bucket_keys_unfold)

lemma val2stars_lt_10: "i < 10 \<Longrightarrow> val2stars (of_nat (i + 1) / 2) nf = Inr (bucket_keys ! i)"
proof -
  assume "i < 10"
  then have "i = 0 \<or> i = 1 \<or> i = 2 \<or> i = 3 \<or> i = 4 \<or> i = 5 \<or> i = 6 \<or> i = 7 \<or> i = 8 \<or> i = 9"
    by arith
  then show ?thesis
    by (elim disjE) (simp_all add: val2stars_def rating_scale_def bucket_keys_unfold)
qed

lemma val2stars_ge_10: "10 \<le> i \<Longrightarrow> val2stars (of_nat (i + 1) / 2) nf = Inl InvalidRating"
proof -
  assume "10 \<le> i"
  then have "(5 :: rat) < of_nat (i + 1) / 2"
    by simp
  then show ?thesis
    by (simp add: val2stars_def rating_scale_def)
qed

lemma val2stars_nth:
  "val2stars (of_nat (i + 1) / 2) nf = Inr stars \<Longrightarrow> i < 10 \<and> stars = bucket_keys ! i"
  using val2stars_lt_10 [of i nf] val2stars_ge_10 [of i nf] by (cases "i < 10") simp_all

lemma bucket_count_update:
  "bucket_count (AList.update k v d) k' =
     (if k' = k then (case v of VInt n \<Rightarrow> n | _ \<Rightarrow> 0) else bucket_count d k')"
  by (simp add: bucket_count_def update_conv')

lemma sum_update_other:
  "k \<notin> set ks \<Longrightarrow>
     sum_list (map (bucket_count (AList.update k v d)) ks) = sum_list (map (bucket_count d) ks)"
  by (induction ks) (auto simp: bucket_count_update)

lemma sum_update_one:
  "distinct ks \<Longrightarrow> k \<in> set ks \<Longrightarrow>
     sum_list (map (bucket_count (AList.update k (VInt n) d)) ks)
       = sum_list (map (bucket_count d) ks) - bucket_count d k + n"
  by (induction ks) (auto simp: bucket_count_update sum_update_other)

lemma histogram_bars_sum:
  "histogram_bars i rs nf d tot = Inr (d', tot') \<Longrightarrow>
   (\<forall>j. i \<le> j \<and> j < 10 \<longrightarrow> bucket_count d (bucket_keys ! j) = 0) \<Longrightarrow>
   sum_list (map (bucket_count d') bucket_keys) - tot'
     = sum_list (map (bucket_count d) bucket_keys) - tot"
proof (induction rs arbitrary: i d tot)
  case Nil
  then show ?case by simp
next
  case (Cons r rs)
  from Cons.prems(1) obtain stars where stars: "val2stars (of_nat (i + 1) / 2) nf = Inr stars"
    by (auto simp: Let_def bnd_eq_Inr)
  then have i: "i < 10" and key: "stars = bucket_keys ! i"
    using val2stars_nth by blast+
  have mem: "stars \<in> set bucket_keys"
    using i key by (simp add: length_bucket_keys)
  have zero: "bucket_count d stars = 0"
    using Cons.prems(2) i key by simp
  have later: "bucket_count (AList.update stars v d) (bucket_keys ! j) = 0"
    if "Suc i \<le> j \<and> j < 10" for j v
  proof -
    from that i have "bucket_keys ! j \<noteq> bucket_keys ! i"
      by (simp add: nth_eq_iff_index_eq distinct_bucket_keys length_bucket_keys)
    with that Cons.prems(2) show ?thesis
      by (simp add: bucket_count_update key)
  qed
  show ?case
  proof (cases "strip_chars [32] (text_of r) = []")
    case True
    with Cons.prems(1) stars
    have "histogram_bars (i + 1) rs nf (AList.update stars (VInt 0) d) tot = Inr (d', tot')"
      by (simp add: Let_def)
    from Cons.IH [OF this] later
    have "sum_list (map (bucket_count d') bucket_keys) - tot'
            = sum_list (map (bucket_count (AList.update stars (VInt 0) d)) bucket_keys) - tot"
      by simp
    then show ?thesis
      by (simp add: sum_update_one [OF distinct_bucket_keys mem] zero)
  next
    case False
    with Cons.prems(1) stars obtain n where
      rec: "histogram_bars (i + 1) rs nf (AList.update stars (VInt n) d) (tot + n) = Inr (d', tot')"
      by (auto simp: Let_def bnd_eq_Inr)
    from Cons.IH [OF this] later
    have "sum_list (map (bucket_count d') bucket_keys) - tot'
            = sum_list (map (bucket_count (AList.update stars (VInt n) d)) bucket_keys) - (tot + n)"
      by simp
    then show ?thesis
      by (simp add: sum_update_one [OF distinct_bucket_keys mem] zero)
  qed
qed

lemma histogram_zeros_buckets:
  "histogram_zeros js nf d = Inr d' \<Longrightarrow>
   (\<forall>k \<in> set bucket_keys. bucket_count d k = 0) \<Longrightarrow>
   (\<forall>k \<in> set bucket_keys. bucket_count d' k = 0)"
proof (induction js arbitrary: d)
  case Nil
  then show ?case by simp
next
  case (Cons j js)
  from Cons.prems(1) obtain stars where
    rec: "histogram_zeros js nf (AList.update stars (VInt 0) d) = Inr d'"
    by (auto simp: bnd_eq_Inr)
  show ?case
    by (rule Cons.IH [OF rec]) (simp add: bucket_count_update Cons.prems(2))
qed

lemma sum_zero: "(\<forall>k \<in> set ks. bucket_count d k = 0) \<Longrightarrow> sum_list (map (bucket_count d) ks) = 0"
  by (induction ks) simp_all

lemma named_not_bucket:
  "lit ''Fans'' \<notin> set bucket_keys" "lit ''Total_ratings'' \<notin> set bucket_keys"
  "lit ''Film_URL'' \<notin> set bucket_keys" "lit ''Watches'' \<notin> set bucket_keys"
  "lit ''List_appearances'' \<notin> set bucket_keys" "lit ''Likes'' \<notin> set bucket_keys"
  by (simp_all add: bucket_keys_unfold lit_def star_def half_def)

lemma bucket_count_named:
  "k' \<notin> set bucket_keys \<Longrightarrow> k \<in> set bucket_keys \<Longrightarrow>
     bucket_count (AList.update k' v d) k = bucket_count d k"
  by (auto simp: bucket_count_update)

lemma histogram_fields_total:
  assumes "histogram_fields hist_soup nf d = Inr d'"
    and "\<forall>k \<in> set bucket_keys. bucket_count d k = 0"
  shows "map_of d' (lit ''Total_ratings'')
           = Some (VInt (sum_list (map (bucket_count d') bucket_keys)))"
proof -
  let ?d1 = "AList.update (lit ''Fans'')
               (VInt (parse_fans (map_option text_of (find hist_soup ''a.all-link.more-link'')))) d"
  let ?ratings = "find_all hist_soup ''li.rating-histogram-bar''"
  have d1: "\<forall>k \<in> set bucket_keys. bucket_count ?d1 k = 0"
    using assms(2) by (simp add: bucket_count_named named_not_bucket)
  from assms(1) obtain d2 tot where
    loop: "(if length ?ratings \<noteq> 0 then histogram_bars 0 ?ratings nf ?d1 0
            else bnd (histogram_zeros [0..<10] nf ?d1) (\<lambda>d. Inr (d, 0))) = Inr (d2, tot)"
    and d': "d' = AList.update (lit ''Total_ratings'') (VInt tot) d2"
    by (auto simp: histogram_fields_def Let_def bnd_eq_Inr)
  have "sum_list (map (bucket_count d2) bucket_keys) = tot"
  proof (cases "length ?ratings \<noteq> 0")
    case True
    with loop have "histogram_bars 0 ?ratings nf ?d1 0 = Inr (d2, tot)" by simp
    from histogram_bars_sum [OF this] d1 show ?thesis
      by (simp add: sum_zero length_bucket_keys [symmetric])
  next
    case False
    with loop have "histogram_zeros [0..<10] nf ?d1 = Inr d2" and "tot = 0"
      by (auto simp: bnd_eq_Inr)
    with histogram_zeros_buckets [OF _ d1] show ?thesis
      by (simp add: sum_zero)
  qed
  then show ?thesis
    by (simp add: d' update_conv' sum_update_other named_not_bucket)
qed


lemma film_page_fields_keys:
  "film_page_fields film_html film_soup nf = Inr d \<Longrightarrow>
     map fst d =
       [lit ''Film_title'', lit ''Release_year'', lit ''Director'', lit ''Cast'',
        lit ''Average_rating'', lit ''Owner_rating'', lit ''Genres'', lit ''Runtime'',
        lit ''Countries'', lit ''Original_language'', lit ''Spoken_languages'',
        lit ''Description'', lit ''Studios'']"
  by (auto simp: film_page_fields_def bnd_eq_Inr)

lemma film_page_fields_buckets:
  assumes "film_page_fields film_html film_soup nf = Inr d" and "k \<in> set bucket_keys"
  shows "bucket_count d k = 0"
proof -
  from assms(2) have "k \<notin> set (map fst d)"
    unfolding film_page_fields_keys [OF assms(1)]
    by (auto simp: bucket_keys_unfold lit_def star_def half_def)
  then have "map_of d k = None"
    by (simp add: map_of_eq_None_iff)
  then show ?thesis
    by (simp add: bucket_count_def)
qed

lemma stats_fields_buckets:
  assumes "stats_fields stats_soup d = Inr d'" and "\<forall>k \<in> set bucket_keys. bucket_count d k = 0"
  shows "\<forall>k \<in> set bucket_keys. bucket_count d' k = 0"
  using assms by (auto simp: stats_fields_def bnd_eq_Inr bucket_count_named named_not_bucket)

lemma total_not_url: "lit ''Total_ratings'' \<noteq> lit ''Film_URL''"
  by (simp add: lit_def)

lemma scrape_film_total:
  assumes "scrape_film get film_html nf = Inr film_dict"
  shows "map_of film_dict (lit ''Total_ratings'')
           = Some (VInt (sum_list (map (bucket_count film_dict) bucket_keys)))"
proof -
  from assms obtain film_soup stats_soup hist_soup d0 d1 d2 url where
    page: "film_page_fields film_html film_soup nf = Inr d0"
    and stats: "stats_fields stats_soup d0 = Inr d1"
    and hist: "histogram_fields hist_soup nf d1 = Inr d2"
    and res: "film_dict = AList.update (lit ''Film_URL'') (VStr url) d2"
    by (auto simp: scrape_film_def Let_def bnd_eq_Inr)
  have "\<forall>k \<in> set bucket_keys. bucket_count d1 k = 0"
    using stats_fields_buckets [OF stats] film_page_fields_buckets [OF page] by blast
  from histogram_fields_total [OF hist this] show ?thesis
    by (simp add: res update_conv' sum_update_other named_not_bucket total_not_url)
qed

lemma no_bars_all_zero:
  assumes "find_all hist_soup ''li.rating-histogram-bar'' = []"
  shows "\<exists>d'. histogram_fields hist_soup nf d = Inr d'
           \<and> map_of d' (lit ''Total_ratings'') = Some (VInt 0)
           \<and> list_all (\<lambda>k. map_of d' k = Some (VInt 0)) bucket_keys"
  using assms
  by (simp add: histogram_fields_def Let_def upt_10 val2stars_def rating_scale_def
      bucket_keys_unfold update_conv' star_def half_def lit_def)

text \<open>
  C2: in every record that \<open>scrape_film\<close> produces, the \<open>Total_ratings\<close> field is the
  sum of the counts stored in the bucket fields (the glyph strings of the 10
  increments); and a histogram fragment without bars gives a record in which all 10
  bucket fields are 0 and \<open>Total_ratings\<close> is 0. On the example film, with bucket
  counts 1, 0, 2, 0, 3, 0, 4, 0, 5, 0, the total is 15.
\<close>

theorem C2_total_ratings_is_bucket_sum:
  "(scrape_film get film_html not_found = Inr film_dict \<longrightarrow>
      map_of film_dict (lit ''Total_ratings'')
        = Some (VInt (sum_list (map (bucket_count film_dict) bucket_keys))))
   \<and> (find_all hist_soup ''li.rating-histogram-bar'' = [] \<longrightarrow>
        (\<exists>d'. histogram_fields hist_soup not_found d = Inr d'
           \<and> map_of d' (lit ''Total_ratings'') = Some (VInt 0)
           \<and> list_all (\<lambda>k. map_of d' k = Some (VInt 0)) bucket_keys))"
  using scrape_film_total no_bars_all_zero by blast

theorem C2_total_ratings_is_bucket_sum_witness:
  "scrape_film heat_web heat_item VNaN = Inr heat_record
   \<and> map (bucket_count heat_record) bucket_keys = [1, 0, 2, 0, 3, 0, 4, 0, 5, 0]
   \<and> map_of heat_record (lit ''Total_ratings'') = Some (VInt 15)
   \<and> find_all error_page ''li.rating-histogram-bar'' = []
   \<and> (\<exists>d'. histogram_fields error_page VNaN [] = Inr d'
         \<and> map_of d' (lit ''Total_ratings'') = Some (VInt 0)
         \<and> list_all (\<lambda>k. map_of d' k = Some (VInt 0)) bucket_keys)"
proof -
  have counts: "map (bucket_count heat_record) bucket_keys = [1, 0, 2, 0, 3, 0, 4, 0, 5, 0]"
    by (simp add: bucket_count_def heat_record_def bucket_keys_unfold lit_def star_def half_def)
  have no_bars: "find_all error_page ''li.rating-histogram-bar'' = []"
    by (simp add: error_page_def find_all_def)
  show ?thesis
    using C2_total_ratings_is_bucket_sum [of heat_web heat_item VNaN heat_record error_page "[]"]
      heat_scraped counts no_bars
    by simp
qed

end
